theory Spec2Isabelle
  imports Main "HOL-Library.Word"
begin

section \<open>Strings of the error wire format\<close>

text \<open>
  A string of the source is a sequence of 16-bit code units, and so it is here; backend
  failures reach the front end as such strings (\<open>String(error)\<close>). \<open>js\<close> writes a
  string whose characters are below 256 from its literal.
\<close>

type_synonym codeUnit = "16 word"

type_synonym jsstring = "codeUnit list"

definition js :: "string \<Rightarrow> jsstring" where
  "js s = map of_char s"

fun startsWith :: "jsstring \<Rightarrow> jsstring \<Rightarrow> bool" where
  "startsWith s [] = True"
| "startsWith [] (p # ps) = False"
| "startsWith (c # cs) (p # ps) = (c = p \<and> startsWith cs ps)"

text \<open>\<open>s.includes(sub)\<close>: \<open>sub\<close> occurs at some position of \<open>s\<close>.\<close>

fun includes_str :: "jsstring \<Rightarrow> jsstring \<Rightarrow> bool" where
  "includes_str [] sub = (sub = [])"
| "includes_str (c # cs) sub = (startsWith (c # cs) sub \<or> includes_str cs sub)"

text \<open>\<open>s.split(sep)\<close> for a one-character separator: every piece, empty ones too.\<close>

fun split_at :: "codeUnit \<Rightarrow> jsstring \<Rightarrow> jsstring list" where
  "split_at sep [] = [[]]"
| "split_at sep (c # cs) =
     (if c = sep then [] # split_at sep cs
      else (case split_at sep cs of
              [] \<Rightarrow> [[c]]
            | p # ps \<Rightarrow> (c # p) # ps))"

text \<open>\<open>parts[i] || ''\<close>: a missing piece and an empty piece both give the empty string.\<close>

definition part_or_empty :: "jsstring list \<Rightarrow> nat \<Rightarrow> jsstring" where
  "part_or_empty parts i = (case drop i parts of [] \<Rightarrow> [] | p # ps \<Rightarrow> p)"

text \<open>
  The line terminators, which the dot of a regular expression does not match: line
  feed, carriage return, line separator (U+2028) and paragraph separator (U+2029).
\<close>

definition lineTerminator :: "codeUnit \<Rightarrow> bool" where
  "lineTerminator c = (c = 0x000A \<or> c = 0x000D \<or> c = 0x2028 \<or> c = 0x2029)"

definition TARGET_EXISTS :: jsstring where
  "TARGET_EXISTS = (js ''TARGET_EXISTS|'')"

text \<open>
  \<open>errMsg.match(/TARGET_EXISTS\|(.+)/)\<close>, reduced to its capture group: the leftmost
  position where the tag stands and is followed by at least one character that is
  not a line terminator; the greedy group runs to the next line terminator or the
  end. \<open>None\<close> is the \<open>null\<close> of a failed match.
\<close>

fun matchTargetExists :: "jsstring \<Rightarrow> jsstring option" where
  "matchTargetExists [] = None"
| "matchTargetExists (c # cs) =
     (if startsWith (c # cs) TARGET_EXISTS
      then (case takeWhile (\<lambda>x. \<not> lineTerminator x) (drop (length TARGET_EXISTS) (c # cs)) of
              [] \<Rightarrow> matchTargetExists cs
            | g # gs \<Rightarrow> Some (g # gs))
      else matchTargetExists cs)"

text \<open>\<open>const targetPath = match ? match[1] : ''\<close>, as both sync handlers write it.\<close>

definition targetPathOf :: "jsstring \<Rightarrow> jsstring" where
  "targetPathOf errMsg = (case matchTargetExists errMsg of None \<Rightarrow> [] | Some m \<Rightarrow> m)"

text \<open>\<open>parseTargetExistsError\<close> of the error helpers.\<close>

definition parseTargetExistsError :: "jsstring \<Rightarrow> jsstring option" where
  "parseTargetExistsError errMsg =
     (if \<not> includes_str errMsg TARGET_EXISTS then None
      else (case matchTargetExists errMsg of None \<Rightarrow> None | Some m \<Rightarrow> Some m))"

section \<open>Data model\<close>

text \<open>
  The fields of \<open>ToolOption\<close>, \<open>ManagedSkill\<close> and of a skill's targets that the
  modelled functions read (\<open>id\<close>, \<open>label\<close>; \<open>id\<close>, \<open>name\<close>, \<open>central_path\<close>,
  \<open>targets\<close>; \<open>tool\<close>).
\<close>

record toolOption =
  tool_id :: jsstring
  tool_label :: jsstring

record skillTarget =
  target_tool :: jsstring

record managedSkill =
  skill_id :: jsstring
  skill_name :: jsstring
  central_path :: jsstring
  targets :: "skillTarget list"

text \<open>
  The asynchronous calls that leave the hook: \<open>api.syncSkillToTool(centralPath, skillId,
  toolId, name, overwrite)\<close> (the last argument is optional and counts as \<open>false\<close> when
  left out), \<open>api.unsyncSkillFromTool(skillId, toolId)\<close>, \<open>api.reorderSkills(ids)\<close>, the
  functions \<open>updateSkill\<close>, \<open>deleteSkill\<close> and \<open>refresh\<close> of the skills store, and
  \<open>refreshTrayMenu\<close>. What they do behind the boundary is not part of the front end;
  here each is a request that resolves or is rejected.
\<close>

datatype call =
    SyncSkillToTool jsstring jsstring jsstring jsstring bool
  | UnsyncSkillFromTool jsstring jsstring
  | ReorderSkills "jsstring list"
  | UpdateSkill managedSkill
  | DeleteSkill jsstring
  | Refresh
  | RefreshTrayMenu

text \<open>
  Everything a handler does that can be observed from outside, in order: an awaited
  call with its outcome (\<open>None\<close> resolved, \<open>Some e\<close> rejected with \<open>String(error) = e\<close>),
  the two-way overwrite dialog with the answer given, the state setters, the
  notifications and the console.
\<close>

datatype event =
    Awaited call "jsstring option"
  | ConfirmTargetOverwrite jsstring jsstring jsstring bool
  | SetActionLoading bool
  | SetDeleteSkillId "jsstring option"
  | SetSkills "managedSkill list"
  | MessageError jsstring
  | ModalToolNotInstalled jsstring jsstring
  | ModalGitError jsstring
  | ConsoleError jsstring jsstring
  | ConsoleLog jsstring

text \<open>
  The collaborators. The backend and the user are functions of the history so far, so
  that any deterministic environment is an instance; the git error parser and the
  translation function come from other modules and are parameters.
\<close>

record deps =
  backend :: "event list \<Rightarrow> call \<Rightarrow> jsstring option"
  user :: "event list \<Rightarrow> jsstring \<Rightarrow> jsstring \<Rightarrow> jsstring \<Rightarrow> bool"
  isGitError :: "jsstring \<Rightarrow> bool"
  formatGitError :: "jsstring \<Rightarrow> jsstring"
  translate :: "jsstring \<Rightarrow> jsstring"

text \<open>The state of the hook and the history of events.\<close>

record ui =
  actionLoading :: bool
  deleteSkillId :: "jsstring option"
  skills :: "managedSkill list"
  trace :: "event list"

section \<open>Programs: state, rejection, try, catch, finally\<close>

text \<open>
  A program runs on the state and either completes with a value (\<open>Inr\<close>) or throws
  (\<open>Inl\<close>, the thrown value as \<open>String\<close> renders it).
\<close>

type_synonym 'a prog = "ui \<Rightarrow> (jsstring + 'a) \<times> ui"

definition return :: "'a \<Rightarrow> 'a prog" where
  "return x = (\<lambda>s. (Inr x, s))"

definition bind :: "'a prog \<Rightarrow> ('a \<Rightarrow> 'b prog) \<Rightarrow> 'b prog" where
  "bind m f = (\<lambda>s. case m s of (Inl e, s') \<Rightarrow> (Inl e, s') | (Inr x, s') \<Rightarrow> f x s')"

definition try_catch :: "'a prog \<Rightarrow> (jsstring \<Rightarrow> 'a prog) \<Rightarrow> 'a prog" where
  "try_catch m h = (\<lambda>s. case m s of (Inl e, s') \<Rightarrow> h e s' | (Inr x, s') \<Rightarrow> (Inr x, s'))"

definition try_finally :: "'a prog \<Rightarrow> unit prog \<Rightarrow> 'a prog" where
  "try_finally m f =
     (\<lambda>s. case m s of (r, s1) \<Rightarrow>
        (case f s1 of (Inl e, s2) \<Rightarrow> (Inl e, s2) | (Inr u, s2) \<Rightarrow> (r, s2)))"

definition emit :: "event \<Rightarrow> unit prog" where
  "emit e = (\<lambda>s. (Inr (), s\<lparr>trace := trace s @ [e]\<rparr>))"

text \<open>\<open>await\<close> of a call: the backend answers; a rejection is thrown.\<close>

definition await :: "deps \<Rightarrow> call \<Rightarrow> unit prog" where
  "await env c =
     (\<lambda>s. let r = backend env (trace s) c in
        ((case r of None \<Rightarrow> Inr () | Some e \<Rightarrow> Inl e), s\<lparr>trace := trace s @ [Awaited c r]\<rparr>))"

text \<open>\<open>for (const x of xs) body\<close>: a throwing body ends the loop.\<close>

fun forEach :: "'a list \<Rightarrow> ('a \<Rightarrow> unit prog) \<Rightarrow> unit prog" where
  "forEach [] body = return ()"
| "forEach (x # xs) body = bind (body x) (\<lambda>u. forEach xs body)"

definition setActionLoading :: "bool \<Rightarrow> unit prog" where
  "setActionLoading b = (\<lambda>s. (Inr (), s\<lparr>actionLoading := b, trace := trace s @ [SetActionLoading b]\<rparr>))"

definition setDeleteSkillId :: "jsstring option \<Rightarrow> unit prog" where
  "setDeleteSkillId v = (\<lambda>s. (Inr (), s\<lparr>deleteSkillId := v, trace := trace s @ [SetDeleteSkillId v]\<rparr>))"

definition setSkills :: "managedSkill list \<Rightarrow> unit prog" where
  "setSkills v = (\<lambda>s. (Inr (), s\<lparr>skills := v, trace := trace s @ [SetSkills v]\<rparr>))"

section \<open>Error helpers\<close>

text \<open>\<open>allTools.find((t) => t.id === toolId)?.label || fallback\<close>.\<close>

definition labelOr :: "toolOption list \<Rightarrow> jsstring \<Rightarrow> jsstring" where
  "labelOr allTools toolId =
     (case find (\<lambda>t. tool_id t = toolId) allTools of
        None \<Rightarrow> toolId
      | Some t \<Rightarrow> (if tool_label t = [] then toolId else tool_label t))"

text \<open>The fields \<open>showGitError\<close> reads off a \<open>TOOL_NOT_INSTALLED\<close> string.\<close>

definition toolKeyOf :: "jsstring \<Rightarrow> jsstring" where
  "toolKeyOf errMsg = part_or_empty (split_at (of_char CHR ''|'') errMsg) 1"

definition skillsPathOf :: "jsstring \<Rightarrow> jsstring" where
  "skillsPathOf errMsg = part_or_empty (split_at (of_char CHR ''|'') errMsg) 2"

definition showGitError :: "deps \<Rightarrow> jsstring \<Rightarrow> toolOption list \<Rightarrow> unit prog" where
  "showGitError env errMsg allTools =
     (if startsWith errMsg (js ''TOOL_NOT_INSTALLED|'')
      then (let toolKey = toolKeyOf errMsg;
                skillsPath = skillsPathOf errMsg;
                toolName = labelOr allTools toolKey
            in emit (ModalToolNotInstalled toolName skillsPath))
      else if isGitError env errMsg
      then emit (ModalGitError (formatGitError env errMsg))
      else emit (MessageError errMsg))"

text \<open>
  \<open>confirmTargetOverwrite\<close>: the dialog resolves \<open>true\<close> on OK and \<open>false\<close> on cancel,
  and never rejects.
\<close>

definition confirmTargetOverwrite :: "deps \<Rightarrow> jsstring \<Rightarrow> jsstring \<Rightarrow> jsstring \<Rightarrow> bool prog" where
  "confirmTargetOverwrite env skillName toolLabel targetPath =
     (\<lambda>s. let a = user env (trace s) skillName toolLabel targetPath in
        (Inr a, s\<lparr>trace := trace s @ [ConfirmTargetOverwrite skillName toolLabel targetPath a]\<rparr>))"

text \<open>
  \<open>confirmBatchOverwrite\<close>: the footer offers cancel, then "overwrite all" when more
  targets are pending, then OK; each button resolves the promise with its choice.
\<close>

datatype batchChoice = Overwrite | OverwriteAll | SkipTarget

definition confirmBatchOverwrite :: "bool \<Rightarrow> batchChoice list" where
  "confirmBatchOverwrite hasMore =
     [SkipTarget] @ (if hasMore then [OverwriteAll] else []) @ [Overwrite]"

section \<open>Batch sync\<close>

datatype policy = Confirm | Skip

record syncSkillToToolsOptions =
  skillId :: jsstring
  centralPath :: jsstring
  skillName :: jsstring
  selectedTools :: "jsstring list"
  allTools :: "toolOption list"
  onTargetExists :: policy

text \<open>The body of the loop of \<open>syncSkillToTools\<close> for one tool.\<close>

definition syncStep :: "deps \<Rightarrow> syncSkillToToolsOptions \<Rightarrow> jsstring \<Rightarrow> unit prog" where
  "syncStep env opts toolId =
     try_catch
       (await env (SyncSkillToTool (centralPath opts) (skillId opts) toolId (skillName opts) False))
       (\<lambda>errMsg.
          if includes_str errMsg TARGET_EXISTS then
            (if onTargetExists opts = Confirm then
               (let targetPath = targetPathOf errMsg;
                    toolLabel = labelOr (allTools opts) toolId
                in bind (confirmTargetOverwrite env (skillName opts) toolLabel targetPath)
                     (\<lambda>shouldOverwrite.
                        if shouldOverwrite then
                          try_catch
                            (await env (SyncSkillToTool (centralPath opts) (skillId opts)
                               toolId (skillName opts) True))
                            (\<lambda>retryError.
                               emit (ConsoleError ((js ''Failed to overwrite sync to '') @ toolId @ (js '':''))
                                 retryError))
                        else return ()))
             else emit (ConsoleLog ((js ''Skipping '') @ toolId @ (js '': target exists (already synced)''))))
          else emit (ConsoleError ((js ''Failed to sync to '') @ toolId @ (js '':'')) errMsg))"

definition syncSkillToTools :: "deps \<Rightarrow> syncSkillToToolsOptions \<Rightarrow> unit prog" where
  "syncSkillToTools env opts = forEach (selectedTools opts) (syncStep env opts)"

section \<open>The actions of the hook\<close>

text \<open>The \<open>catch\<close> block of \<open>handleToggleTool\<close>, for the error string \<open>String(error)\<close>.\<close>

definition toggleCatch :: "deps \<Rightarrow> toolOption list \<Rightarrow> managedSkill \<Rightarrow> jsstring \<Rightarrow> jsstring \<Rightarrow> unit prog" where
  "toggleCatch env tools skill toolId errMsg =
     (if includes_str errMsg TARGET_EXISTS then
        (let targetPath = targetPathOf errMsg;
             toolLabel = labelOr tools toolId
         in bind (confirmTargetOverwrite env (skill_name skill) toolLabel targetPath)
              (\<lambda>shouldOverwrite.
                 if shouldOverwrite then
                   try_catch
                     (bind (await env (SyncSkillToTool (central_path skill)
                              (skill_id skill) toolId (skill_name skill) True)) (\<lambda>u.
                      bind (await env Refresh) (\<lambda>u.
                      await env RefreshTrayMenu)))
                     (\<lambda>retryError. emit (MessageError retryError))
                 else return ()))
      else showGitError env errMsg tools)"

definition handleToggleTool :: "deps \<Rightarrow> toolOption list \<Rightarrow> managedSkill \<Rightarrow> jsstring \<Rightarrow> unit prog" where
  "handleToggleTool env tools skill toolId =
     (let target = find (\<lambda>t. target_tool t = toolId) (targets skill);
          synced = (target \<noteq> None)
      in bind (setActionLoading True) (\<lambda>u.
         try_finally
           (try_catch
              (bind (if synced
                     then await env (UnsyncSkillFromTool (skill_id skill) toolId)
                     else await env (SyncSkillToTool (central_path skill) (skill_id skill)
                            toolId (skill_name skill) False)) (\<lambda>u.
               bind (await env Refresh) (\<lambda>u.
               await env RefreshTrayMenu)))
              (toggleCatch env tools skill toolId))
           (setActionLoading False)))"

definition handleUpdate :: "deps \<Rightarrow> toolOption list \<Rightarrow> managedSkill \<Rightarrow> unit prog" where
  "handleUpdate env tools skill =
     bind (setActionLoading True) (\<lambda>u.
     try_finally
       (try_catch (await env (UpdateSkill skill))
          (\<lambda>errMsg. showGitError env errMsg tools))
       (setActionLoading False))"

definition handleDelete :: "jsstring \<Rightarrow> unit prog" where
  "handleDelete sid = setDeleteSkillId (Some sid)"

text \<open>\<open>if (!deleteSkillId) return;\<close>: \<open>null\<close> and the empty string are both falsy.\<close>

definition confirmDelete :: "deps \<Rightarrow> toolOption list \<Rightarrow> unit prog" where
  "confirmDelete env tools =
     (\<lambda>s. (case deleteSkillId s of
              None \<Rightarrow> return ()
            | Some i \<Rightarrow>
                if i = [] then return ()
                else bind (setActionLoading True) (\<lambda>u.
                     try_finally
                       (try_catch
                          (bind (await env (DeleteSkill i)) (\<lambda>u.
                           bind (setDeleteSkillId None) (\<lambda>u.
                           await env RefreshTrayMenu)))
                          (\<lambda>errMsg. showGitError env errMsg tools))
                       (setActionLoading False))) s)"

text \<open>\<open>xs.findIndex(p)\<close>: the first index whose element satisfies \<open>p\<close>; \<open>None\<close> is -1.\<close>

fun findIndex :: "('a \<Rightarrow> bool) \<Rightarrow> 'a list \<Rightarrow> nat option" where
  "findIndex p [] = None"
| "findIndex p (x # xs) =
     (if p x then Some 0 else (case findIndex p xs of None \<Rightarrow> None | Some i \<Rightarrow> Some (Suc i)))"

text \<open>
  \<open>arrayMove\<close> of the drag-and-drop library: a copy of the array in which the element
  at \<open>from\<close> is taken out and put back at \<open>to\<close> (\<open>splice\<close> clamps a start beyond the
  end). The library inserts \<open>undefined\<close> when \<open>from\<close> is no index of the array; the
  handler only calls it with indices that \<open>findIndex\<close> resolved, and that case is
  written here as the unchanged copy.
\<close>

definition arrayMove :: "'a list \<Rightarrow> nat \<Rightarrow> nat \<Rightarrow> 'a list" where
  "arrayMove array from to =
     (case drop from array of
        [] \<Rightarrow> array
      | x # after \<Rightarrow>
          (let removed = take from array @ after
           in take to removed @ [x] @ drop to removed))"

record dragEndEvent =
  active :: jsstring
  over :: "jsstring option"

definition handleDragEnd :: "deps \<Rightarrow> dragEndEvent \<Rightarrow> unit prog" where
  "handleDragEnd env ev =
     (\<lambda>s. (case over ev of
              None \<Rightarrow> return ()
            | Some ov \<Rightarrow>
                if active ev = ov then return ()
                else (case findIndex (\<lambda>k. skill_id k = active ev) (skills s) of
                        None \<Rightarrow> return ()
                      | Some oldIndex \<Rightarrow>
                          (case findIndex (\<lambda>k. skill_id k = ov) (skills s) of
                             None \<Rightarrow> return ()
                           | Some newIndex \<Rightarrow>
                               (let oldSkills = skills s;
                                    newSkills = arrayMove (skills s) oldIndex newIndex
                                in bind (setSkills newSkills) (\<lambda>u.
                                   try_catch
                                     (bind (await env (ReorderSkills (map skill_id newSkills))) (\<lambda>u.
                                      await env RefreshTrayMenu))
                                     (\<lambda>error.
                                        bind (emit (ConsoleError (js ''Failed to reorder skills:'') error)) (\<lambda>u.
                                        bind (setSkills oldSkills) (\<lambda>u.
                                        emit (MessageError (translate env (js ''common.error''))))))))))) s)"

section \<open>Reading a history\<close>

fun isPrompt :: "event \<Rightarrow> bool" where
  "isPrompt (ConfirmTargetOverwrite n l p a) = True"
| "isPrompt e = False"

fun isBusy :: "event \<Rightarrow> bool" where
  "isBusy (SetActionLoading b) = True"
| "isBusy e = False"

text \<open>The events a run added to the history it started from.\<close>

definition since :: "ui \<Rightarrow> ui \<Rightarrow> event list" where
  "since s s' = drop (length (trace s)) (trace s')"

text \<open>The materialize calls of a history whose overwrite flag is \<open>w\<close>, in order.\<close>

fun syncCalls :: "bool \<Rightarrow> event list \<Rightarrow> call list" where
  "syncCalls w [] = []"
| "syncCalls w (Awaited (SyncSkillToTool cp i t n v) r # evs) =
     (if v = w then SyncSkillToTool cp i t n v # syncCalls w evs else syncCalls w evs)"
| "syncCalls w (e # evs) = syncCalls w evs"

text \<open>
  Modelled from the spec: the backend's bookkeeping of a skill's targets is not part of
  the front end. Following the data model (a target entry exists exactly when the
  backend has materialized the skill at the tool) and the operations \<open>syncOne\<close> and
  \<open>unsyncOne\<close>, a materialize call that resolves adds the tool to the targets of its
  skill, a remove call that resolves takes it out, and a rejected call changes nothing.
\<close>

fun targetsAfter :: "jsstring \<Rightarrow> event list \<Rightarrow> jsstring set \<Rightarrow> jsstring set" where
  "targetsAfter sid [] T = T"
| "targetsAfter sid (Awaited (SyncSkillToTool cp i t n v) None # evs) T =
     targetsAfter sid evs (if i = sid then insert t T else T)"
| "targetsAfter sid (Awaited (UnsyncSkillFromTool i t) None # evs) T =
     targetsAfter sid evs (if i = sid then T - {t} else T)"
| "targetsAfter sid (e # evs) T = targetsAfter sid evs T"

text \<open>
  The shape "set busy, work, clear busy" of a finished action that started in \<open>s\<close>:
  it completed without throwing, the flag is off, the history was only extended, the
  first new event sets the flag, the last one clears it, and nothing in between
  touches it.
\<close>

definition busy_bracket :: "ui \<Rightarrow> (jsstring + unit) \<times> ui \<Rightarrow> bool" where
  "busy_bracket s r =
     (fst r = Inr ()
      \<and> actionLoading (snd r) = False
      \<and> take (length (trace s)) (trace (snd r)) = trace s
      \<and> hd (since s (snd r)) = SetActionLoading True
      \<and> last (since s (snd r)) = SetActionLoading False
      \<and> filter isBusy (since s (snd r)) = [SetActionLoading True, SetActionLoading False])"

text \<open>A program that leaves the busy flag alone, and one that never throws.\<close>

definition steady :: "'a prog \<Rightarrow> bool" where
  "steady m = (\<forall>s. actionLoading (snd (m s)) = actionLoading s
                 \<and> (\<exists>evs. trace (snd (m s)) = trace s @ evs \<and> filter isBusy evs = []))"

definition nothrow :: "'a prog \<Rightarrow> bool" where
  "nothrow m = (\<forall>s. \<exists>x. fst (m s) = Inr x)"

section \<open>Concrete environments\<close>

definition mkSkill :: "jsstring \<Rightarrow> managedSkill" where
  "mkSkill i = \<lparr>skill_id = i, skill_name = (js ''skill '') @ i, central_path = (js ''/central/'') @ i,
     targets = []\<rparr>"

definition syncedSkill :: managedSkill where
  "syncedSkill = \<lparr>skill_id = (js ''s1''), skill_name = (js ''Skill''), central_path = (js ''/central/s1''),
     targets = [\<lparr>target_tool = (js ''T'')\<rparr>]\<rparr>"

definition mkEnv :: "(event list \<Rightarrow> call \<Rightarrow> jsstring option)
    \<Rightarrow> (event list \<Rightarrow> jsstring \<Rightarrow> jsstring \<Rightarrow> jsstring \<Rightarrow> bool) \<Rightarrow> deps" where
  "mkEnv b u = \<lparr>backend = b, user = u, isGitError = (\<lambda>e. False),
     formatGitError = (\<lambda>e. e), translate = (\<lambda>k. k)\<rparr>"

definition s0 :: ui where
  "s0 = \<lparr>actionLoading = False, deleteSkillId = None, skills = [], trace = []\<rparr>"

definition fourSkills :: ui where
  "fourSkills = \<lparr>actionLoading = False, deleteSkillId = None,
     skills = [mkSkill (js ''1''), mkSkill (js ''2''), mkSkill (js ''3''), mkSkill (js ''4'')], trace = []\<rparr>"

text \<open>
  A backend in which the tools \<open>ts\<close> are occupied: a materialize call to one of them
  without the overwrite flag is rejected with the conflict string; every other call
  resolves.
\<close>

definition occupied :: "jsstring list \<Rightarrow> event list \<Rightarrow> call \<Rightarrow> jsstring option" where
  "occupied ts h c =
     (case c of
        SyncSkillToTool cp i t n w \<Rightarrow>
          (if List.member ts t \<and> \<not> w then Some ((js ''TARGET_EXISTS|/tools/'') @ t) else None)
      | _ \<Rightarrow> None)"

text \<open>A backend in which materializing at the tool \<open>x\<close> fails with an I/O error.\<close>

definition failing :: "jsstring \<Rightarrow> event list \<Rightarrow> call \<Rightarrow> jsstring option" where
  "failing x h c =
     (case c of
        SyncSkillToTool cp i t n w \<Rightarrow> (if t = x then Some (js ''io error'') else None)
      | _ \<Rightarrow> None)"

definition batchOpts :: "policy \<Rightarrow> syncSkillToToolsOptions" where
  "batchOpts p = \<lparr>skillId = (js ''s1''), centralPath = (js ''/central/s1''), skillName = (js ''Skill''),
     selectedTools = [(js ''A''), (js ''B''), (js ''C'')], allTools = [], onTargetExists = p\<rparr>"

section \<open>Error strings\<close>

declare js_def [simp]

lemmas prog_defs = return_def bind_def try_catch_def try_finally_def emit_def await_def
  setActionLoading_def setDeleteSkillId_def setSkills_def confirmTargetOverwrite_def

lemmas fixture_defs = mkEnv_def s0_def fourSkills_def occupied_def failing_def batchOpts_def
  mkSkill_def syncedSkill_def

lemma startsWith_iff: "startsWith s p \<longleftrightarrow> (\<exists>r. s = p @ r)"
  by (induction s p rule: startsWith.induct) auto

lemma includes_str_iff: "includes_str s sub \<longleftrightarrow> (\<exists>p r. s = p @ sub @ r)"
proof (induction s)
  case Nil
  then show ?case by auto
next
  case (Cons c cs)
  show ?case
  proof
    assume "includes_str (c # cs) sub"
    then consider "startsWith (c # cs) sub" | "includes_str cs sub" by auto
    then show "\<exists>p r. c # cs = p @ sub @ r"
    proof cases
      case 1
      then obtain r where "c # cs = sub @ r" by (auto simp: startsWith_iff)
      then have "c # cs = [] @ sub @ r" by simp
      then show ?thesis by blast
    next
      case 2
      with Cons obtain p r where "cs = p @ sub @ r" by blast
      then have "c # cs = (c # p) @ sub @ r" by simp
      then show ?thesis by blast
    qed
  next
    assume "\<exists>p r. c # cs = p @ sub @ r"
    then obtain p r where e: "c # cs = p @ sub @ r" by blast
    show "includes_str (c # cs) sub"
    proof (cases p)
      case Nil
      with e have "startsWith (c # cs) sub" by (simp add: startsWith_iff)
      then show ?thesis by simp
    next
      case (Cons a p')
      with e have "cs = p' @ sub @ r" by simp
      then show ?thesis using Cons.IH by auto
    qed
  qed
qed

lemma match_at_tag:
  "takeWhile (\<lambda>x. \<not> lineTerminator x) r \<noteq> [] \<Longrightarrow>
     matchTargetExists (TARGET_EXISTS @ r) = Some (takeWhile (\<lambda>x. \<not> lineTerminator x) r)"
  by (simp add: TARGET_EXISTS_def split: list.splits)

lemma match_tag_only: "matchTargetExists TARGET_EXISTS = None"
  by (simp add: TARGET_EXISTS_def)

text \<open>Positions before the first occurrence of the tag are passed over.\<close>

lemma match_first_occurrence:
  assumes "\<forall>i<length p. \<not> startsWith (drop i (p @ TARGET_EXISTS @ r)) TARGET_EXISTS"
  shows "matchTargetExists (p @ TARGET_EXISTS @ r) = matchTargetExists (TARGET_EXISTS @ r)"
  using assms
proof (induction p)
  case Nil
  then show ?case by simp
next
  case (Cons a p)
  from Cons.prems have "\<not> startsWith (drop 0 ((a # p) @ TARGET_EXISTS @ r)) TARGET_EXISTS"
    by blast
  then have skip: "matchTargetExists ((a # p) @ TARGET_EXISTS @ r)
      = matchTargetExists (p @ TARGET_EXISTS @ r)"
    by simp
  have "\<forall>i<length p. \<not> startsWith (drop i (p @ TARGET_EXISTS @ r)) TARGET_EXISTS"
  proof (intro allI impI)
    fix i assume "i < length p"
    then have "Suc i < length (a # p)" by simp
    with Cons.prems
    have "\<not> startsWith (drop (Suc i) ((a # p) @ TARGET_EXISTS @ r)) TARGET_EXISTS"
      by blast
    then show "\<not> startsWith (drop i (p @ TARGET_EXISTS @ r)) TARGET_EXISTS" by simp
  qed
  with Cons.IH skip show ?case by simp
qed

lemma targetPath_first_occurrence:
  assumes "\<forall>i<length p. \<not> startsWith (drop i (p @ TARGET_EXISTS @ r)) TARGET_EXISTS"
  shows "takeWhile (\<lambda>x. \<not> lineTerminator x) r \<noteq> [] \<Longrightarrow>
           targetPathOf (p @ TARGET_EXISTS @ r) = takeWhile (\<lambda>x. \<not> lineTerminator x) r"
    and "r = [] \<Longrightarrow> targetPathOf (p @ TARGET_EXISTS @ r) = []"
proof -
  note m = match_first_occurrence [OF assms]
  show "takeWhile (\<lambda>x. \<not> lineTerminator x) r \<noteq> [] \<Longrightarrow>
           targetPathOf (p @ TARGET_EXISTS @ r) = takeWhile (\<lambda>x. \<not> lineTerminator x) r"
    unfolding targetPathOf_def m by (simp add: match_at_tag)
  show "r = [] \<Longrightarrow> targetPathOf (p @ TARGET_EXISTS @ r) = []"
    unfolding targetPathOf_def m using match_tag_only by simp
qed

text \<open>
  Claim C8. The string \<open>TARGET_EXISTS|/a/b/skill.md\<close> is parsed as a target-exists
  conflict with the path \<open>/a/b/skill.md\<close>, by \<open>parseTargetExistsError\<close> and by the test
  and the extraction that the sync handlers write inline; the string
  \<open>TOOL_NOT_INSTALLED|vscode|/skills\<close> is taken by \<open>showGitError\<close> as a tool-not-installed
  error with tool key \<open>vscode\<close> and skills path \<open>/skills\<close>, which the dialog shows (the
  tool's label in place of the key when the tool is known).
\<close>

theorem C8_error_string_parsing:
  "parseTargetExistsError (js ''TARGET_EXISTS|/a/b/skill.md'') = Some (js ''/a/b/skill.md'')
   \<and> includes_str (js ''TARGET_EXISTS|/a/b/skill.md'') TARGET_EXISTS
   \<and> targetPathOf (js ''TARGET_EXISTS|/a/b/skill.md'') = (js ''/a/b/skill.md'')
   \<and> startsWith (js ''TOOL_NOT_INSTALLED|vscode|/skills'') (js ''TOOL_NOT_INSTALLED|'')
   \<and> toolKeyOf (js ''TOOL_NOT_INSTALLED|vscode|/skills'') = (js ''vscode'')
   \<and> skillsPathOf (js ''TOOL_NOT_INSTALLED|vscode|/skills'') = (js ''/skills'')
   \<and> showGitError env (js ''TOOL_NOT_INSTALLED|vscode|/skills'') tools s
       = (Inr (), s\<lparr>trace := trace s @ [ModalToolNotInstalled (labelOr tools (js ''vscode'')) (js ''/skills'')]\<rparr>)
   \<and> labelOr [] (js ''vscode'') = (js ''vscode'')"
  by (simp add: parseTargetExistsError_def TARGET_EXISTS_def targetPathOf_def lineTerminator_def
      toolKeyOf_def skillsPathOf_def showGitError_def emit_def part_or_empty_def labelOr_def
      Let_def)

section \<open>Reordering\<close>

lemma findIndex_Some: "findIndex p xs = Some i \<Longrightarrow> i < length xs \<and> p (xs ! i)"
  by (induction xs arbitrary: i) (auto split: if_splits option.splits)

text \<open>Two identifiers that resolve to the same index are the same identifier.\<close>

lemma findIndex_same:
  assumes "findIndex (\<lambda>k. f k = a) xs = Some i" "findIndex (\<lambda>k. f k = b) xs = Some i"
  shows "a = b"
  using findIndex_Some [OF assms(1)] findIndex_Some [OF assms(2)] by simp

text \<open>
  A move that passes the guards: the handler completes, and the list it leaves is the
  moved one exactly when the persist call and the tray refresh after it both resolve;
  otherwise it is the list from before the move.
\<close>

lemma handleDragEnd_valid_move:
  assumes "over ev = Some ov" "active ev \<noteq> ov"
    "findIndex (\<lambda>k. skill_id k = active ev) (skills s) = Some i"
    "findIndex (\<lambda>k. skill_id k = ov) (skills s) = Some j"
  shows "fst (handleDragEnd env ev s) = Inr ()
    \<and> skills (snd (handleDragEnd env ev s)) =
       (if backend env (trace s @ [SetSkills (arrayMove (skills s) i j)])
             (ReorderSkills (map skill_id (arrayMove (skills s) i j))) = None
         \<and> backend env (trace s @ [SetSkills (arrayMove (skills s) i j),
               Awaited (ReorderSkills (map skill_id (arrayMove (skills s) i j))) None])
             RefreshTrayMenu = None
        then arrayMove (skills s) i j else skills s)"
  using assms
  by (auto simp: handleDragEnd_def prog_defs Let_def split: option.splits)

text \<open>
  Claim C9. A reorder request with no drop target, or whose source or destination
  identifier resolves to no skill of the list, or whose source and destination resolve
  to the same entry, is a silent no-op: the handler completes without throwing and the
  state is the one it started from, the ordering and the history included, so no
  backend call was made and no notification was raised.
\<close>

theorem C9_reorder_noop:
  assumes "case over ev of
             None \<Rightarrow> True
           | Some ov \<Rightarrow>
               findIndex (\<lambda>k. skill_id k = active ev) (skills s) = None
               \<or> findIndex (\<lambda>k. skill_id k = ov) (skills s) = None
               \<or> findIndex (\<lambda>k. skill_id k = active ev) (skills s)
                   = findIndex (\<lambda>k. skill_id k = ov) (skills s)"
  shows "handleDragEnd env ev s = (Inr (), s)"
proof (cases "over ev")
  case None
  then show ?thesis by (simp add: handleDragEnd_def return_def)
next
  case (Some ov)
  show ?thesis
  proof (cases "active ev = ov")
    case True
    with Some show ?thesis by (simp add: handleDragEnd_def return_def)
  next
    case False
    with Some assms findIndex_same [of skill_id "active ev" "skills s" _ ov]
    show ?thesis
      by (auto simp: handleDragEnd_def return_def split: option.splits)
  qed
qed

theorem C9_reorder_noop_witness:
  "handleDragEnd (mkEnv (\<lambda>h c. None) (\<lambda>h n l p. False))
      \<lparr>active = (js ''3''), over = Some (js ''3'')\<rparr> fourSkills = (Inr (), fourSkills)
   \<and> handleDragEnd (mkEnv (\<lambda>h c. None) (\<lambda>h n l p. False))
      \<lparr>active = (js ''1''), over = Some (js ''9'')\<rparr> fourSkills = (Inr (), fourSkills)
   \<and> handleDragEnd (mkEnv (\<lambda>h c. None) (\<lambda>h n l p. False))
      \<lparr>active = (js ''1''), over = None\<rparr> fourSkills = (Inr (), fourSkills)"
proof -
  let ?env = "mkEnv (\<lambda>h c. None) (\<lambda>h n l p. False)"
  have "handleDragEnd ?env \<lparr>active = (js ''3''), over = Some (js ''3'')\<rparr> fourSkills = (Inr (), fourSkills)"
    by (rule C9_reorder_noop) (simp add: fixture_defs)
  moreover
  have "handleDragEnd ?env \<lparr>active = (js ''1''), over = Some (js ''9'')\<rparr> fourSkills = (Inr (), fourSkills)"
    by (rule C9_reorder_noop) (simp add: fixture_defs)
  moreover
  have "handleDragEnd ?env \<lparr>active = (js ''1''), over = None\<rparr> fourSkills = (Inr (), fourSkills)"
    by (rule C9_reorder_noop) simp
  ultimately show ?thesis by blast
qed

text \<open>
  Claim C3. For the ordering 1, 2, 3, 4, moving the element at index 0 to index 2 gives
  2, 3, 1, 4 (the element is taken out and put back, nothing is swapped). Dragging
  skill 1 onto skill 3 shows that order at once, before the persist call; when the
  persist call fails, the handler logs, puts the list from before the move back, and
  shows the generic failure notice, so the final visible order is 1, 2, 3, 4.
\<close>

theorem C3_reorder_round_trip:
  "arrayMove [1, 2, 3, 4 :: nat] 0 2 = [2, 3, 1, 4]
   \<and> map skill_id (arrayMove [mkSkill (js ''1''), mkSkill (js ''2''), mkSkill (js ''3''), mkSkill (js ''4'')] 0 2)
     = [(js ''2''), (js ''3''), (js ''1''), (js ''4'')]
   \<and> handleDragEnd (env\<lparr>backend := \<lambda>h c. (case c of ReorderSkills ids \<Rightarrow> Some err | _ \<Rightarrow> None)\<rparr>)
        \<lparr>active = (js ''1''), over = Some (js ''3'')\<rparr>
        \<lparr>actionLoading = b, deleteSkillId = d,
          skills = [mkSkill (js ''1''), mkSkill (js ''2''), mkSkill (js ''3''), mkSkill (js ''4'')], trace = h\<rparr>
     = (Inr (),
        \<lparr>actionLoading = b, deleteSkillId = d,
          skills = [mkSkill (js ''1''), mkSkill (js ''2''), mkSkill (js ''3''), mkSkill (js ''4'')],
          trace = h @
            [SetSkills [mkSkill (js ''2''), mkSkill (js ''3''), mkSkill (js ''1''), mkSkill (js ''4'')],
             Awaited (ReorderSkills [(js ''2''), (js ''3''), (js ''1''), (js ''4'')]) (Some err),
             ConsoleError (js ''Failed to reorder skills:'') err,
             SetSkills [mkSkill (js ''1''), mkSkill (js ''2''), mkSkill (js ''3''), mkSkill (js ''4'')],
             MessageError (translate env (js ''common.error''))]\<rparr>)"
  by (simp add: handleDragEnd_def arrayMove_def mkSkill_def prog_defs Let_def)

text \<open>
  Claim C2 does not hold of the code. The tray refresh is awaited inside the same
  \<open>try\<close> block as the persist call, so a refresh that fails after the new order was
  persisted also reaches the rollback: for the ordering 1, 2, 3, 4 and the move of
  skill 1 onto skill 3, with a persist call that resolves and a refresh that is
  rejected, the backend holds 2, 3, 1, 4, the console reports a failed reorder, and the
  visible order is put back to 1, 2, 3, 4.
\<close>

theorem C2_refresh_failure_rolls_back:
  "handleDragEnd (env\<lparr>backend := \<lambda>h c. (case c of RefreshTrayMenu \<Rightarrow> Some err | _ \<Rightarrow> None)\<rparr>)
        \<lparr>active = (js ''1''), over = Some (js ''3'')\<rparr>
        \<lparr>actionLoading = b, deleteSkillId = d,
          skills = [mkSkill (js ''1''), mkSkill (js ''2''), mkSkill (js ''3''), mkSkill (js ''4'')], trace = h\<rparr>
     = (Inr (),
        \<lparr>actionLoading = b, deleteSkillId = d,
          skills = [mkSkill (js ''1''), mkSkill (js ''2''), mkSkill (js ''3''), mkSkill (js ''4'')],
          trace = h @
            [SetSkills [mkSkill (js ''2''), mkSkill (js ''3''), mkSkill (js ''1''), mkSkill (js ''4'')],
             Awaited (ReorderSkills [(js ''2''), (js ''3''), (js ''1''), (js ''4'')]) None,
             Awaited RefreshTrayMenu (Some err),
             ConsoleError (js ''Failed to reorder skills:'') err,
             SetSkills [mkSkill (js ''1''), mkSkill (js ''2''), mkSkill (js ''3''), mkSkill (js ''4'')],
             MessageError (translate env (js ''common.error''))]\<rparr>)"
  by (simp add: handleDragEnd_def arrayMove_def mkSkill_def prog_defs Let_def)

section \<open>Programs that leave the busy flag alone and programs that never throw\<close>

lemma steadyI:
  assumes "\<And>s. actionLoading (snd (m s)) = actionLoading s"
    and "\<And>s. \<exists>evs. trace (snd (m s)) = trace s @ evs \<and> filter isBusy evs = []"
  shows "steady m"
  using assms unfolding steady_def by blast

lemma steady_return: "steady (return x)"
  by (rule steadyI) (simp_all add: return_def)

lemma steady_emit: "\<not> isBusy e \<Longrightarrow> steady (emit e)"
  by (rule steadyI) (simp_all add: emit_def)

lemma steady_await: "steady (await env c)"
  by (rule steadyI) (simp_all add: await_def Let_def)

lemma steady_confirm: "steady (confirmTargetOverwrite env n l p)"
  by (rule steadyI) (simp_all add: confirmTargetOverwrite_def Let_def)

lemma steady_setDeleteSkillId: "steady (setDeleteSkillId v)"
  by (rule steadyI) (simp_all add: setDeleteSkillId_def)

lemma steady_setSkills: "steady (setSkills v)"
  by (rule steadyI) (simp_all add: setSkills_def)

lemma steady_showGitError: "steady (showGitError env e tools)"
  by (simp add: showGitError_def Let_def steady_emit)

lemma steady_bind:
  assumes "steady m" and "\<And>x. steady (f x)"
  shows "steady (bind m f)"
proof (rule steadyI)
  fix s
  obtain r s1 where m: "m s = (r, s1)" by (cases "m s")
  from assms(1) m obtain e1 where a1: "actionLoading s1 = actionLoading s"
    and t1: "trace s1 = trace s @ e1" and b1: "filter isBusy e1 = []"
    unfolding steady_def by (metis snd_conv)
  show "actionLoading (snd (bind m f s)) = actionLoading s"
  proof (cases r)
    case (Inl e)
    with m a1 show ?thesis by (simp add: bind_def)
  next
    case (Inr x)
    from assms(2) [of x] have "actionLoading (snd (f x s1)) = actionLoading s1"
      unfolding steady_def by blast
    with Inr m a1 show ?thesis by (simp add: bind_def)
  qed
  show "\<exists>evs. trace (snd (bind m f s)) = trace s @ evs \<and> filter isBusy evs = []"
  proof (cases r)
    case (Inl e)
    with m t1 b1 show ?thesis by (simp add: bind_def)
  next
    case (Inr x)
    from assms(2) [of x] obtain e2 where "trace (snd (f x s1)) = trace s1 @ e2"
      and "filter isBusy e2 = []"
      unfolding steady_def by blast
    with t1 b1 have "trace (snd (f x s1)) = trace s @ (e1 @ e2) \<and> filter isBusy (e1 @ e2) = []"
      by simp
    with Inr m show ?thesis unfolding bind_def by (simp del: append_assoc)
  qed
qed

lemma steady_try_catch:
  assumes "steady m" and "\<And>e. steady (h e)"
  shows "steady (try_catch m h)"
proof (rule steadyI)
  fix s
  obtain r s1 where m: "m s = (r, s1)" by (cases "m s")
  from assms(1) m obtain e1 where a1: "actionLoading s1 = actionLoading s"
    and t1: "trace s1 = trace s @ e1" and b1: "filter isBusy e1 = []"
    unfolding steady_def by (metis snd_conv)
  show "actionLoading (snd (try_catch m h s)) = actionLoading s"
  proof (cases r)
    case (Inr x)
    with m a1 show ?thesis by (simp add: try_catch_def)
  next
    case (Inl e)
    from assms(2) [of e] have "actionLoading (snd (h e s1)) = actionLoading s1"
      unfolding steady_def by blast
    with Inl m a1 show ?thesis by (simp add: try_catch_def)
  qed
  show "\<exists>evs. trace (snd (try_catch m h s)) = trace s @ evs \<and> filter isBusy evs = []"
  proof (cases r)
    case (Inr x)
    with m t1 b1 show ?thesis by (simp add: try_catch_def)
  next
    case (Inl e)
    from assms(2) [of e] obtain e2 where "trace (snd (h e s1)) = trace s1 @ e2"
      and "filter isBusy e2 = []"
      unfolding steady_def by blast
    with t1 b1 have "trace (snd (h e s1)) = trace s @ (e1 @ e2) \<and> filter isBusy (e1 @ e2) = []"
      by simp
    with Inl m show ?thesis unfolding try_catch_def by (simp del: append_assoc)
  qed
qed

lemma steady_if: "steady a \<Longrightarrow> steady b \<Longrightarrow> steady (if c then a else b)"
  by simp

lemma steady_case_option:
  "steady a \<Longrightarrow> (\<And>x. steady (f x)) \<Longrightarrow> steady (case v of None \<Rightarrow> a | Some x \<Rightarrow> f x)"
  by (cases v) simp_all

lemma steady_run: "(\<And>s. steady (F s)) \<Longrightarrow> steady (\<lambda>s. F s s)"
  unfolding steady_def by blast

lemma steady_trace: "steady m \<Longrightarrow> \<exists>evs. trace (snd (m s)) = trace s @ evs"
  unfolding steady_def by blast

lemma steady_since:
  assumes "steady m"
  shows "filter isBusy (since s (snd (m s))) = [] \<and> actionLoading (snd (m s)) = actionLoading s"
proof -
  from assms obtain evs where "trace (snd (m s)) = trace s @ evs" and "filter isBusy evs = []"
    and "actionLoading (snd (m s)) = actionLoading s"
    unfolding steady_def by blast
  then show ?thesis by (simp add: since_def)
qed

lemma nothrow_return: "nothrow (return x)"
  by (simp add: nothrow_def return_def)

lemma nothrow_emit: "nothrow (emit e)"
  by (simp add: nothrow_def emit_def)

lemma nothrow_confirm: "nothrow (confirmTargetOverwrite env n l p)"
  by (simp add: nothrow_def confirmTargetOverwrite_def Let_def)

lemma nothrow_showGitError: "nothrow (showGitError env e tools)"
  by (simp add: showGitError_def Let_def nothrow_emit)

lemma nothrow_bind:
  assumes "nothrow m" and "\<And>x. nothrow (f x)"
  shows "nothrow (bind m f)"
  unfolding nothrow_def
proof
  fix s
  from assms(1) obtain x where "fst (m s) = Inr x" unfolding nothrow_def by blast
  then obtain s1 where "m s = (Inr x, s1)" by (cases "m s") simp
  moreover from assms(2) [of x] obtain y where "fst (f x s1) = Inr y"
    unfolding nothrow_def by blast
  ultimately show "\<exists>y. fst (bind m f s) = Inr y" by (simp add: bind_def)
qed

text \<open>Whatever the \<open>try\<close> block does, a \<open>catch\<close> block that cannot throw contains it.\<close>

lemma nothrow_try_catch:
  assumes "\<And>e. nothrow (h e)"
  shows "nothrow (try_catch m h)"
  unfolding nothrow_def
proof
  fix s
  obtain r s1 where m: "m s = (r, s1)" by (cases "m s")
  show "\<exists>x. fst (try_catch m h s) = Inr x"
  proof (cases r)
    case (Inr x)
    with m show ?thesis by (simp add: try_catch_def)
  next
    case (Inl e)
    from assms [of e] obtain y where "fst (h e s1) = Inr y" unfolding nothrow_def by blast
    with Inl m show ?thesis by (simp add: try_catch_def)
  qed
qed

lemma nothrow_if: "nothrow a \<Longrightarrow> nothrow b \<Longrightarrow> nothrow (if c then a else b)"
  by simp

lemmas steady_intros = steady_bind steady_try_catch steady_if steady_return steady_emit
  steady_await steady_confirm steady_setDeleteSkillId steady_setSkills steady_showGitError

lemmas nothrow_intros = nothrow_bind nothrow_try_catch nothrow_if nothrow_return nothrow_emit
  nothrow_confirm nothrow_showGitError

text \<open>The frame "set busy, try, finally clear busy" around such a program.\<close>

lemma bracketI:
  assumes "steady m" and "nothrow m"
  shows "busy_bracket s (bind (setActionLoading True) (\<lambda>u. try_finally m (setActionLoading False)) s)"
proof -
  let ?s1 = "s\<lparr>actionLoading := True, trace := trace s @ [SetActionLoading True]\<rparr>"
  obtain r s2 where m: "m ?s1 = (r, s2)" by (cases "m ?s1")
  from assms(2) obtain x where "fst (m ?s1) = Inr x" unfolding nothrow_def by blast
  with m have r: "r = Inr ()" by simp
  from assms(1) m obtain evs where t: "trace s2 = trace ?s1 @ evs" and b: "filter isBusy evs = []"
    unfolding steady_def by (metis snd_conv)
  have res: "bind (setActionLoading True) (\<lambda>u. try_finally m (setActionLoading False)) s
     = (Inr (), s2\<lparr>actionLoading := False, trace := trace s2 @ [SetActionLoading False]\<rparr>)"
    using m r by (simp add: bind_def try_finally_def setActionLoading_def)
  show ?thesis
    unfolding res busy_bracket_def since_def using t b by simp
qed

lemma bracket_trace:
  "trace (snd (bind (setActionLoading True) (\<lambda>u. try_finally m (setActionLoading False)) s))
     = trace (snd (m (s\<lparr>actionLoading := True, trace := trace s @ [SetActionLoading True]\<rparr>)))
       @ [SetActionLoading False]"
  by (simp add: bind_def try_finally_def setActionLoading_def split: prod.splits sum.splits)

lemma try_catch_first_event:
  assumes "\<And>e. steady (h e)" and "\<exists>evs. trace (snd (m s)) = trace s @ x # evs"
  shows "\<exists>evs. trace (snd (try_catch m h s)) = trace s @ x # evs"
proof -
  obtain r s1 where m: "m s = (r, s1)" by (cases "m s")
  with assms(2) obtain e1 where t1: "trace s1 = trace s @ x # e1" by auto
  show ?thesis
  proof (cases r)
    case (Inr v)
    with m t1 show ?thesis by (simp add: try_catch_def)
  next
    case (Inl e)
    from steady_trace [OF assms(1) [of e], of s1] obtain e2
      where "trace (snd (h e s1)) = trace s1 @ e2" by blast
    with t1 have "trace (snd (h e s1)) = trace s @ x # (e1 @ e2)" by simp
    with Inl m show ?thesis unfolding try_catch_def by auto
  qed
qed

section \<open>The busy flag of the four actions\<close>

lemma steady_toggleCatch: "steady (toggleCatch env tools skill toolId e)"
  unfolding toggleCatch_def Let_def
  by (intro steady_intros; simp)+

lemma nothrow_toggleCatch: "nothrow (toggleCatch env tools skill toolId e)"
  unfolding toggleCatch_def Let_def
  by (intro nothrow_intros; simp)+

lemma toggle_bracket: "busy_bracket s (handleToggleTool env tools skill toolId s)"
  unfolding handleToggleTool_def Let_def
  by (rule bracketI)
    (intro steady_intros nothrow_intros steady_toggleCatch nothrow_toggleCatch; simp)+

lemma update_bracket: "busy_bracket s (handleUpdate env tools skill s)"
  unfolding handleUpdate_def
  by (rule bracketI) (intro steady_intros nothrow_intros; simp)+

lemma delete_bracket:
  assumes "deleteSkillId s = Some i" "i \<noteq> []"
  shows "busy_bracket s (confirmDelete env tools s)"
proof -
  have "confirmDelete env tools s =
     bind (setActionLoading True) (\<lambda>u.
       try_finally
         (try_catch
            (bind (await env (DeleteSkill i)) (\<lambda>u.
             bind (setDeleteSkillId None) (\<lambda>u.
             await env RefreshTrayMenu)))
            (\<lambda>errMsg. showGitError env errMsg tools))
         (setActionLoading False)) s"
    using assms by (simp add: confirmDelete_def)
  also have "busy_bracket s \<dots>"
    by (rule bracketI) (intro steady_intros nothrow_intros; simp)+
  finally show ?thesis .
qed

lemma delete_early_return:
  "deleteSkillId s = None \<or> deleteSkillId s = Some [] \<Longrightarrow> confirmDelete env tools s = (Inr (), s)"
  by (auto simp: confirmDelete_def return_def)

lemma steady_handleDragEnd: "steady (handleDragEnd env ev)"
  unfolding handleDragEnd_def Let_def
  by (rule steady_run) (intro steady_case_option steady_intros; simp)+

text \<open>
  Claim C4, as stated, fails for the reorder action: it neither sets nor clears the busy
  flag. A move that reaches the backend runs with the flag off from start to end, and
  no event of its history touches the flag.
\<close>

theorem C4_reorder_no_busy_counterexample:
  "handleDragEnd (mkEnv (\<lambda>h c. None) (\<lambda>h n l p. False))
      \<lparr>active = (js ''1''), over = Some (js ''3'')\<rparr> fourSkills
     = (Inr (), fourSkills\<lparr>
          skills := [mkSkill (js ''2''), mkSkill (js ''3''), mkSkill (js ''1''), mkSkill (js ''4'')],
          trace := [SetSkills [mkSkill (js ''2''), mkSkill (js ''3''), mkSkill (js ''1''), mkSkill (js ''4'')],
                    Awaited (ReorderSkills [(js ''2''), (js ''3''), (js ''1''), (js ''4'')]) None,
                    Awaited RefreshTrayMenu None]\<rparr>)
   \<and> actionLoading fourSkills = False
   \<and> filter isBusy (trace (snd (handleDragEnd (mkEnv (\<lambda>h c. None) (\<lambda>h n l p. False))
        \<lparr>active = (js ''1''), over = Some (js ''3'')\<rparr> fourSkills))) = []"
  by (simp add: handleDragEnd_def arrayMove_def fixture_defs prog_defs Let_def)

text \<open>
  Claim C4, amended. The toggle and the update action always, and the delete
  confirmation whenever a skill is recorded for deletion, set the busy flag as their
  first step, before the delegated call, and clear it as their last step on every
  path, completing without throwing; nothing in between touches the flag. The delete
  confirmation with no skill recorded (or the empty identifier) returns at once and
  leaves the state, the flag included, as it was. The reorder action never sets or
  clears the busy flag.
\<close>

theorem C4_busy_flag_bracket:
  "busy_bracket s (handleToggleTool env tools skill toolId s)
   \<and> busy_bracket s (handleUpdate env tools skill s)
   \<and> (case deleteSkillId s of
         None \<Rightarrow> confirmDelete env tools s = (Inr (), s)
       | Some i \<Rightarrow>
           if i = [] then confirmDelete env tools s = (Inr (), s)
           else busy_bracket s (confirmDelete env tools s))
   \<and> filter isBusy (since s (snd (handleDragEnd env ev s))) = []
   \<and> actionLoading (snd (handleDragEnd env ev s)) = actionLoading s"
proof (intro conjI)
  show "busy_bracket s (handleToggleTool env tools skill toolId s)"
    by (rule toggle_bracket)
  show "busy_bracket s (handleUpdate env tools skill s)"
    by (rule update_bracket)
  show "case deleteSkillId s of
          None \<Rightarrow> confirmDelete env tools s = (Inr (), s)
        | Some i \<Rightarrow>
            if i = [] then confirmDelete env tools s = (Inr (), s)
            else busy_bracket s (confirmDelete env tools s)"
    using delete_bracket [of s] delete_early_return [of s]
    by (cases "deleteSkillId s") auto
  show "filter isBusy (since s (snd (handleDragEnd env ev s))) = []"
    using steady_since [OF steady_handleDragEnd] by blast
  show "actionLoading (snd (handleDragEnd env ev s)) = actionLoading s"
    using steady_since [OF steady_handleDragEnd] by blast
qed

theorem C4_busy_flag_bracket_witness:
  "since s0 (snd (handleUpdate (mkEnv (\<lambda>h c. Some (js ''io error'')) (\<lambda>h n l p. False)) []
       (mkSkill (js ''1'')) s0))
     = [SetActionLoading True, Awaited (UpdateSkill (mkSkill (js ''1''))) (Some (js ''io error'')),
        MessageError (js ''io error''), SetActionLoading False]
   \<and> busy_bracket s0 (handleUpdate (mkEnv (\<lambda>h c. Some (js ''io error'')) (\<lambda>h n l p. False)) []
       (mkSkill (js ''1'')) s0)
   \<and> busy_bracket s0 (handleToggleTool (mkEnv (\<lambda>h c. Some (js ''io error'')) (\<lambda>h n l p. False)) []
       (mkSkill (js ''1'')) (js ''T'') s0)
   \<and> confirmDelete (mkEnv (\<lambda>h c. Some (js ''io error'')) (\<lambda>h n l p. False)) [] s0 = (Inr (), s0)"
proof -
  have "since s0 (snd (handleUpdate (mkEnv (\<lambda>h c. Some (js ''io error'')) (\<lambda>h n l p. False)) []
       (mkSkill (js ''1'')) s0))
     = [SetActionLoading True, Awaited (UpdateSkill (mkSkill (js ''1''))) (Some (js ''io error'')),
        MessageError (js ''io error''), SetActionLoading False]"
    by (simp add: handleUpdate_def showGitError_def since_def fixture_defs prog_defs)
  moreover have "deleteSkillId s0 = None" by (simp add: s0_def)
  ultimately show ?thesis
    using C4_busy_flag_bracket [of s0 "mkEnv (\<lambda>h c. Some (js ''io error'')) (\<lambda>h n l p. False)" "[]"
        "mkSkill (js ''1'')" "(js ''T'')" "\<lparr>active = (js ''1''), over = None\<rparr>"]
    by simp
qed

section \<open>Batch sync\<close>

text \<open>The three-way dialog offers "overwrite all" exactly when more targets are pending.\<close>

lemma confirmBatchOverwrite_choices:
  "confirmBatchOverwrite True = [SkipTarget, OverwriteAll, Overwrite]"
  "confirmBatchOverwrite False = [SkipTarget, Overwrite]"
  by (simp_all add: confirmBatchOverwrite_def)

lemma syncCalls_append: "syncCalls w (xs @ ys) = syncCalls w xs @ syncCalls w ys"
  by (induction w xs rule: syncCalls.induct) auto




text \<open>
  A conflict under the policy \<open>confirm\<close>, event by event: the rejected call, the prompt,
  and on "yes" the overwrite call, with a console line when that one fails too.
\<close>

lemma syncStep_confirm:
  assumes "onTargetExists opts = Confirm"
    and "backend env (trace s)
           (SyncSkillToTool (centralPath opts) (skillId opts) t (skillName opts) False) = Some e"
    and "includes_str e TARGET_EXISTS"
  shows "\<exists>a r. syncStep env opts t s =
       (Inr (), s\<lparr>trace := trace s @
          [Awaited (SyncSkillToTool (centralPath opts) (skillId opts) t (skillName opts) False) (Some e),
           ConfirmTargetOverwrite (skillName opts) (labelOr (allTools opts) t) (targetPathOf e) a]
          @ (if a then
               Awaited (SyncSkillToTool (centralPath opts) (skillId opts) t (skillName opts) True) r
               # (case r of None \<Rightarrow> []
                  | Some x \<Rightarrow> [ConsoleError (js ''Failed to overwrite sync to '' @ t @ js '':'') x])
             else [])\<rparr>)
     \<and> a = user env (trace s @
               [Awaited (SyncSkillToTool (centralPath opts) (skillId opts) t (skillName opts) False)
                  (Some e)])
               (skillName opts) (labelOr (allTools opts) t) (targetPathOf e)"
  using assms by (auto simp: syncStep_def prog_defs Let_def split: option.splits)







text \<open>
  Claim C6. A batch sync with the policy \<open>skip\<close> over the tools A, B, C, where the
  backend resolves the materialize calls for A and C and rejects the one for B as a
  target-exists conflict, does exactly this: the call for A, the rejected call for B, a
  console line that B is skipped, the call for C. No prompt is shown, no overwrite is
  tried, the batch goes on to C after the skipped B, and of a skill that had no target
  for B the final targets hold A and C and do not hold B.
\<close>

theorem C6_skip_policy:
  assumes "onTargetExists opts = Skip" and "selectedTools opts = [A, B, C]"
    and "\<forall>h. backend env h (SyncSkillToTool (centralPath opts) (skillId opts) A (skillName opts) False) = None"
    and "\<forall>h. backend env h (SyncSkillToTool (centralPath opts) (skillId opts) B (skillName opts) False) = Some e"
    and "includes_str e TARGET_EXISTS"
    and "\<forall>h. backend env h (SyncSkillToTool (centralPath opts) (skillId opts) C (skillName opts) False) = None"
    and "B \<notin> T"
  shows "syncSkillToTools env opts s =
      (Inr (), s\<lparr>trace := trace s @
         [Awaited (SyncSkillToTool (centralPath opts) (skillId opts) A (skillName opts) False) None,
          Awaited (SyncSkillToTool (centralPath opts) (skillId opts) B (skillName opts) False) (Some e),
          ConsoleLog ((js ''Skipping '') @ B @ (js '': target exists (already synced)'')),
          Awaited (SyncSkillToTool (centralPath opts) (skillId opts) C (skillName opts) False) None]\<rparr>)
    \<and> filter isPrompt (since s (snd (syncSkillToTools env opts s))) = []
    \<and> syncCalls True (since s (snd (syncSkillToTools env opts s))) = []
    \<and> targetsAfter (skillId opts) (since s (snd (syncSkillToTools env opts s))) T = insert A (insert C T)
    \<and> B \<notin> targetsAfter (skillId opts) (since s (snd (syncSkillToTools env opts s))) T"
proof -
  from assms(3,4) have "A \<noteq> B" by auto
  moreover from assms(4,6) have "C \<noteq> B" by auto
  moreover have r: "syncSkillToTools env opts s =
      (Inr (), s\<lparr>trace := trace s @
         [Awaited (SyncSkillToTool (centralPath opts) (skillId opts) A (skillName opts) False) None,
          Awaited (SyncSkillToTool (centralPath opts) (skillId opts) B (skillName opts) False) (Some e),
          ConsoleLog ((js ''Skipping '') @ B @ (js '': target exists (already synced)'')),
          Awaited (SyncSkillToTool (centralPath opts) (skillId opts) C (skillName opts) False) None]\<rparr>)"
    using assms by (simp add: syncSkillToTools_def syncStep_def prog_defs)
  ultimately show ?thesis using assms(7) by (auto simp: r since_def)
qed

theorem C6_skip_policy_witness:
  "syncSkillToTools (mkEnv (occupied [(js ''B'')]) (\<lambda>h n l p. True)) (batchOpts Skip) s0 =
      (Inr (), s0\<lparr>trace :=
         [Awaited (SyncSkillToTool (js ''/central/s1'') (js ''s1'') (js ''A'') (js ''Skill'') False) None,
          Awaited (SyncSkillToTool (js ''/central/s1'') (js ''s1'') (js ''B'') (js ''Skill'') False)
            (Some (js ''TARGET_EXISTS|/tools/B'')),
          ConsoleLog (js ''Skipping B: target exists (already synced)''),
          Awaited (SyncSkillToTool (js ''/central/s1'') (js ''s1'') (js ''C'') (js ''Skill'') False) None]\<rparr>)
   \<and> targetsAfter (js ''s1'') (since s0 (snd (syncSkillToTools
         (mkEnv (occupied [(js ''B'')]) (\<lambda>h n l p. True)) (batchOpts Skip) s0))) {} = {(js ''A''), (js ''C'')}
   \<and> filter isPrompt (since s0 (snd (syncSkillToTools
         (mkEnv (occupied [(js ''B'')]) (\<lambda>h n l p. True)) (batchOpts Skip) s0))) = []"
proof -
  let ?env = "mkEnv (occupied [(js ''B'')]) (\<lambda>h n l p. True)"
  let ?opts = "batchOpts Skip"
  have h1: "onTargetExists ?opts = Skip" and h2: "selectedTools ?opts = [(js ''A''), (js ''B''), (js ''C'')]"
    by (simp_all add: batchOpts_def)
  have h3: "\<forall>h. backend ?env h
      (SyncSkillToTool (centralPath ?opts) (skillId ?opts) (js ''A'') (skillName ?opts) False) = None"
    by (simp add: fixture_defs)
  have h4: "\<forall>h. backend ?env h
      (SyncSkillToTool (centralPath ?opts) (skillId ?opts) (js ''B'') (skillName ?opts) False)
        = Some (js ''TARGET_EXISTS|/tools/B'')"
    by (simp add: fixture_defs)
  have h5: "includes_str (js ''TARGET_EXISTS|/tools/B'') TARGET_EXISTS"
    by (simp add: TARGET_EXISTS_def)
  have h6: "\<forall>h. backend ?env h
      (SyncSkillToTool (centralPath ?opts) (skillId ?opts) (js ''C'') (skillName ?opts) False) = None"
    by (simp add: fixture_defs)
  have h7: "(js ''B'') \<notin> ({} :: jsstring set)" by simp
  from C6_skip_policy [OF h1 h2 h3 h4 h5 h6 h7, of s0]
  show ?thesis by (auto simp: batchOpts_def s0_def since_def)
qed

text \<open>
  Claim C1, as stated, fails: the batch has no "overwrite all". Its prompt is the
  two-way dialog (overwrite or skip), and it is shown again for every conflicting
  tool. With B and C occupied and a user who accepts the overwrite for B, a second
  prompt is shown for C; when the user declines that one, C is not overwritten.
\<close>

theorem C1_second_prompt_counterexample:
  "syncSkillToTools (mkEnv (occupied [(js ''B''), (js ''C'')]) (\<lambda>h n l p. l = (js ''B''))) (batchOpts Confirm) s0 =
     (Inr (), s0\<lparr>trace :=
        [Awaited (SyncSkillToTool (js ''/central/s1'') (js ''s1'') (js ''A'') (js ''Skill'') False) None,
         Awaited (SyncSkillToTool (js ''/central/s1'') (js ''s1'') (js ''B'') (js ''Skill'') False)
           (Some (js ''TARGET_EXISTS|/tools/B'')),
         ConfirmTargetOverwrite (js ''Skill'') (js ''B'') (js ''/tools/B'') True,
         Awaited (SyncSkillToTool (js ''/central/s1'') (js ''s1'') (js ''B'') (js ''Skill'') True) None,
         Awaited (SyncSkillToTool (js ''/central/s1'') (js ''s1'') (js ''C'') (js ''Skill'') False)
           (Some (js ''TARGET_EXISTS|/tools/C'')),
         ConfirmTargetOverwrite (js ''Skill'') (js ''C'') (js ''/tools/C'') False]\<rparr>)"
  by (simp add: fixture_defs syncSkillToTools_def syncStep_def prog_defs Let_def labelOr_def
      TARGET_EXISTS_def targetPathOf_def lineTerminator_def)

text \<open>
  Claim C1, amended. In a batch sync with the policy \<open>confirm\<close> over the tools A, B, C,
  where A is free and B and C are both occupied, and the user accepts the overwrite
  at the prompt for B, the batch completes and its history is, in this order: the
  call for A; the rejected call for B, the prompt for B, the call for B with the
  overwrite flag (and a console line if that call fails); then the rejected call for
  C and a second prompt, for C; and the call for C with the overwrite flag exactly
  when the user accepts that second prompt as well.
\<close>

theorem C1_confirm_prompts_each_conflict:
  assumes "onTargetExists opts = Confirm" and "selectedTools opts = [A, B, C]"
    and "\<forall>h. backend env h (SyncSkillToTool (centralPath opts) (skillId opts) A (skillName opts) False) = None"
    and "\<forall>h. backend env h (SyncSkillToTool (centralPath opts) (skillId opts) B (skillName opts) False) = Some eB"
    and "includes_str eB TARGET_EXISTS"
    and "\<forall>h. backend env h (SyncSkillToTool (centralPath opts) (skillId opts) C (skillName opts) False) = Some eC"
    and "includes_str eC TARGET_EXISTS"
    and "\<forall>h. user env h (skillName opts) (labelOr (allTools opts) B) (targetPathOf eB) = True"
  shows "\<exists>rB a rC.
       syncSkillToTools env opts s =
         (Inr (), s\<lparr>trace := trace s @
            [Awaited (SyncSkillToTool (centralPath opts) (skillId opts) A (skillName opts) False) None,
             Awaited (SyncSkillToTool (centralPath opts) (skillId opts) B (skillName opts) False)
               (Some eB),
             ConfirmTargetOverwrite (skillName opts) (labelOr (allTools opts) B) (targetPathOf eB) True,
             Awaited (SyncSkillToTool (centralPath opts) (skillId opts) B (skillName opts) True) rB]
            @ (case rB of None \<Rightarrow> []
               | Some x \<Rightarrow> [ConsoleError (js ''Failed to overwrite sync to '' @ B @ js '':'') x])
            @ [Awaited (SyncSkillToTool (centralPath opts) (skillId opts) C (skillName opts) False)
                 (Some eC),
               ConfirmTargetOverwrite (skillName opts) (labelOr (allTools opts) C) (targetPathOf eC) a]
            @ (if a then
                 Awaited (SyncSkillToTool (centralPath opts) (skillId opts) C (skillName opts) True) rC
                 # (case rC of None \<Rightarrow> []
                    | Some x \<Rightarrow> [ConsoleError (js ''Failed to overwrite sync to '' @ C @ js '':'') x])
               else [])\<rparr>)
     \<and> fst (syncSkillToTools env opts s) = Inr ()
     \<and> filter isPrompt (since s (snd (syncSkillToTools env opts s))) =
         [ConfirmTargetOverwrite (skillName opts) (labelOr (allTools opts) B) (targetPathOf eB) True,
          ConfirmTargetOverwrite (skillName opts) (labelOr (allTools opts) C) (targetPathOf eC) a]
     \<and> syncCalls True (since s (snd (syncSkillToTools env opts s))) =
         SyncSkillToTool (centralPath opts) (skillId opts) B (skillName opts) True
         # (if a then [SyncSkillToTool (centralPath opts) (skillId opts) C (skillName opts) True]
            else [])"
proof -
  let ?cA = "SyncSkillToTool (centralPath opts) (skillId opts) A (skillName opts) False"
  let ?cB = "SyncSkillToTool (centralPath opts) (skillId opts) B (skillName opts) False"
  let ?cC = "SyncSkillToTool (centralPath opts) (skillId opts) C (skillName opts) False"
  let ?oB = "SyncSkillToTool (centralPath opts) (skillId opts) B (skillName opts) True"
  let ?oC = "SyncSkillToTool (centralPath opts) (skillId opts) C (skillName opts) True"
  let ?pB = "ConfirmTargetOverwrite (skillName opts) (labelOr (allTools opts) B) (targetPathOf eB)"
  let ?pC = "ConfirmTargetOverwrite (skillName opts) (labelOr (allTools opts) C) (targetPathOf eC)"
  let ?s1 = "s\<lparr>trace := trace s @ [Awaited ?cA None]\<rparr>"
  have stepA: "syncStep env opts A s = (Inr (), ?s1)"
    using assms(3) by (simp add: syncStep_def prog_defs)
  from assms(4) have bB: "backend env (trace ?s1) ?cB = Some eB"
    by blast
  from syncStep_confirm [OF assms(1) bB assms(5)] assms(8)
  obtain rB where stepB: "syncStep env opts B ?s1 =
      (Inr (), ?s1\<lparr>trace := trace ?s1 @ [Awaited ?cB (Some eB), ?pB True]
         @ (Awaited ?oB rB
            # (case rB of None \<Rightarrow> []
               | Some x \<Rightarrow> [ConsoleError (js ''Failed to overwrite sync to '' @ B @ js '':'') x]))\<rparr>)"
    by auto
  let ?e2 = "[Awaited ?cB (Some eB), ?pB True]
         @ (Awaited ?oB rB
            # (case rB of None \<Rightarrow> []
               | Some x \<Rightarrow> [ConsoleError (js ''Failed to overwrite sync to '' @ B @ js '':'') x]))"
  let ?s2 = "?s1\<lparr>trace := trace ?s1 @ ?e2\<rparr>"
  from assms(6) have bC: "backend env (trace ?s2) ?cC = Some eC"
    by blast
  from syncStep_confirm [OF assms(1) bC assms(7)]
  obtain a rC where stepC: "syncStep env opts C ?s2 =
      (Inr (), ?s2\<lparr>trace := trace ?s2 @ [Awaited ?cC (Some eC), ?pC a]
         @ (if a then
              Awaited ?oC rC
              # (case rC of None \<Rightarrow> []
                 | Some x \<Rightarrow> [ConsoleError (js ''Failed to overwrite sync to '' @ C @ js '':'') x])
            else [])\<rparr>)"
    by blast
  have run: "syncSkillToTools env opts s =
         (Inr (), s\<lparr>trace := trace s @
            [Awaited ?cA None, Awaited ?cB (Some eB), ?pB True, Awaited ?oB rB]
            @ (case rB of None \<Rightarrow> []
               | Some x \<Rightarrow> [ConsoleError (js ''Failed to overwrite sync to '' @ B @ js '':'') x])
            @ [Awaited ?cC (Some eC), ?pC a]
            @ (if a then
                 Awaited ?oC rC
                 # (case rC of None \<Rightarrow> []
                    | Some x \<Rightarrow> [ConsoleError (js ''Failed to overwrite sync to '' @ C @ js '':'') x])
               else [])\<rparr>)"
    using stepA stepB stepC assms(2) by (simp add: syncSkillToTools_def bind_def return_def)
  have obs: "fst (syncSkillToTools env opts s) = Inr ()
     \<and> filter isPrompt (since s (snd (syncSkillToTools env opts s))) = [?pB True, ?pC a]
     \<and> syncCalls True (since s (snd (syncSkillToTools env opts s))) = ?oB # (if a then [?oC] else [])"
    unfolding run by (simp add: since_def syncCalls_append split: option.splits)
  from run obs show ?thesis by blast
qed

theorem C1_confirm_prompts_each_conflict_witness:
  "onTargetExists (batchOpts Confirm) = Confirm
   \<and> selectedTools (batchOpts Confirm) = [js ''A'', js ''B'', js ''C'']
   \<and> occupied [js ''B'', js ''C''] []
         (SyncSkillToTool (js ''/central/s1'') (js ''s1'') (js ''C'') (js ''Skill'') False)
       = Some (js ''TARGET_EXISTS|/tools/C'')
   \<and> take 4 (map (\<lambda>ev. case ev of Awaited c r \<Rightarrow> Awaited c None | _ \<Rightarrow> ev)
        (since s0 (snd (syncSkillToTools
           (mkEnv (occupied [js ''B'', js ''C'']) (\<lambda>h n l p. True)) (batchOpts Confirm) s0))))
       = [Awaited (SyncSkillToTool (js ''/central/s1'') (js ''s1'') (js ''A'') (js ''Skill'') False) None,
          Awaited (SyncSkillToTool (js ''/central/s1'') (js ''s1'') (js ''B'') (js ''Skill'') False) None,
          ConfirmTargetOverwrite (js ''Skill'') (js ''B'') (js ''/tools/B'') True,
          Awaited (SyncSkillToTool (js ''/central/s1'') (js ''s1'') (js ''B'') (js ''Skill'') True) None]
   \<and> length (filter isPrompt (since s0 (snd (syncSkillToTools
         (mkEnv (occupied [js ''B'', js ''C'']) (\<lambda>h n l p. True)) (batchOpts Confirm) s0)))) = 2
   \<and> hd (syncCalls True (since s0 (snd (syncSkillToTools
         (mkEnv (occupied [js ''B'', js ''C'']) (\<lambda>h n l p. True)) (batchOpts Confirm) s0))))
       = SyncSkillToTool (js ''/central/s1'') (js ''s1'') (js ''B'') (js ''Skill'') True"
proof -
  let ?env = "mkEnv (occupied [js ''B'', js ''C'']) (\<lambda>h n l p. True)"
  let ?opts = "batchOpts Confirm"
  have h1: "onTargetExists ?opts = Confirm"
    and h2: "selectedTools ?opts = [js ''A'', js ''B'', js ''C'']"
    by (simp_all add: batchOpts_def)
  have h3: "\<forall>h. backend ?env h
      (SyncSkillToTool (centralPath ?opts) (skillId ?opts) (js ''A'') (skillName ?opts) False) = None"
    by (simp add: fixture_defs)
  have h4: "\<forall>h. backend ?env h
      (SyncSkillToTool (centralPath ?opts) (skillId ?opts) (js ''B'') (skillName ?opts) False)
        = Some (js ''TARGET_EXISTS|/tools/B'')"
    by (simp add: fixture_defs)
  have h5: "includes_str (js ''TARGET_EXISTS|/tools/B'') TARGET_EXISTS"
    by (simp add: TARGET_EXISTS_def)
  have h6: "\<forall>h. backend ?env h
      (SyncSkillToTool (centralPath ?opts) (skillId ?opts) (js ''C'') (skillName ?opts) False)
        = Some (js ''TARGET_EXISTS|/tools/C'')"
    by (simp add: fixture_defs)
  have h7: "includes_str (js ''TARGET_EXISTS|/tools/C'') TARGET_EXISTS"
    by (simp add: TARGET_EXISTS_def)
  have h8: "\<forall>h. user ?env h (skillName ?opts) (labelOr (allTools ?opts) (js ''B''))
      (targetPathOf (js ''TARGET_EXISTS|/tools/B'')) = True"
    by (simp add: fixture_defs)
  have tp: "targetPathOf (js ''TARGET_EXISTS|/tools/B'') = js ''/tools/B''"
    by (simp add: targetPathOf_def TARGET_EXISTS_def lineTerminator_def)
  from C1_confirm_prompts_each_conflict [OF h1 h2 h3 h4 h5 h6 h7 h8, of s0]
  obtain rB a rC where
    run: "syncSkillToTools ?env ?opts s0 =
         (Inr (), s0\<lparr>trace := trace s0 @
            [Awaited (SyncSkillToTool (centralPath ?opts) (skillId ?opts) (js ''A'') (skillName ?opts) False) None,
             Awaited (SyncSkillToTool (centralPath ?opts) (skillId ?opts) (js ''B'') (skillName ?opts) False)
               (Some (js ''TARGET_EXISTS|/tools/B'')),
             ConfirmTargetOverwrite (skillName ?opts) (labelOr (allTools ?opts) (js ''B''))
               (targetPathOf (js ''TARGET_EXISTS|/tools/B'')) True,
             Awaited (SyncSkillToTool (centralPath ?opts) (skillId ?opts) (js ''B'') (skillName ?opts) True) rB]
            @ (case rB of None \<Rightarrow> []
               | Some x \<Rightarrow> [ConsoleError (js ''Failed to overwrite sync to '' @ js ''B'' @ js '':'') x])
            @ [Awaited (SyncSkillToTool (centralPath ?opts) (skillId ?opts) (js ''C'') (skillName ?opts) False)
                 (Some (js ''TARGET_EXISTS|/tools/C'')),
               ConfirmTargetOverwrite (skillName ?opts) (labelOr (allTools ?opts) (js ''C''))
                 (targetPathOf (js ''TARGET_EXISTS|/tools/C'')) a]
            @ (if a then
                 Awaited (SyncSkillToTool (centralPath ?opts) (skillId ?opts) (js ''C'') (skillName ?opts) True) rC
                 # (case rC of None \<Rightarrow> []
                    | Some x \<Rightarrow> [ConsoleError (js ''Failed to overwrite sync to '' @ js ''C'' @ js '':'') x])
               else [])\<rparr>)"
    by blast
  have "occupied [js ''B'', js ''C''] []
         (SyncSkillToTool (js ''/central/s1'') (js ''s1'') (js ''C'') (js ''Skill'') False)
       = Some (js ''TARGET_EXISTS|/tools/C'')"
    by (simp add: occupied_def)
  with h1 h2 tp show ?thesis
    unfolding run by (simp add: batchOpts_def s0_def since_def labelOr_def syncCalls_append
        split: option.splits)
qed

section \<open>Toggling a tool that is already synced\<close>

lemma toggle_synced_unfold:
  assumes "find (\<lambda>t. target_tool t = toolId) (targets skill) \<noteq> None"
  shows "handleToggleTool env tools skill toolId =
     bind (setActionLoading True) (\<lambda>u.
       try_finally
         (try_catch
            (bind (await env (UnsyncSkillFromTool (skill_id skill) toolId)) (\<lambda>u.
             bind (await env Refresh) (\<lambda>u.
             await env RefreshTrayMenu)))
            (toggleCatch env tools skill toolId))
         (setActionLoading False))"
  using assms by (simp add: handleToggleTool_def)

text \<open>The first thing the action does after raising the busy flag is the remove call.\<close>

lemma toggle_synced_first:
  assumes "find (\<lambda>t. target_tool t = toolId) (targets skill) \<noteq> None"
  shows "\<exists>rest. since s (snd (handleToggleTool env tools skill toolId s)) =
     SetActionLoading True
     # Awaited (UnsyncSkillFromTool (skill_id skill) toolId)
         (backend env (trace s @ [SetActionLoading True]) (UnsyncSkillFromTool (skill_id skill) toolId))
     # rest"
proof -
  let ?s1 = "s\<lparr>actionLoading := True, trace := trace s @ [SetActionLoading True]\<rparr>"
  let ?U = "UnsyncSkillFromTool (skill_id skill) toolId"
  let ?B = "bind (await env ?U) (\<lambda>u. bind (await env Refresh) (\<lambda>u. await env RefreshTrayMenu))"
  have body: "\<exists>evs. trace (snd (?B ?s1)) = trace ?s1 @ Awaited ?U (backend env (trace ?s1) ?U) # evs"
    by (auto simp: prog_defs Let_def split: option.splits)
  from try_catch_first_event [where h = "toggleCatch env tools skill toolId" and m = ?B
      and s = ?s1 and x = "Awaited ?U (backend env (trace ?s1) ?U)", OF steady_toggleCatch body]
  obtain evs where
    "trace (snd (try_catch ?B (toggleCatch env tools skill toolId) ?s1))
       = trace ?s1 @ Awaited ?U (backend env (trace ?s1) ?U) # evs"
    by blast
  then have "trace (snd (handleToggleTool env tools skill toolId s))
       = (trace ?s1 @ Awaited ?U (backend env (trace ?s1) ?U) # evs) @ [SetActionLoading False]"
    unfolding toggle_synced_unfold [OF assms] bracket_trace by simp
  then show ?thesis by (simp add: since_def)
qed

lemma toggle_synced_quiet:
  assumes synced: "find (\<lambda>t. target_tool t = toolId) (targets skill) \<noteq> None"
    and u: "\<forall>h e. backend env h (UnsyncSkillFromTool (skill_id skill) toolId) = Some e
              \<longrightarrow> \<not> includes_str e TARGET_EXISTS"
    and r: "\<forall>h e. backend env h Refresh = Some e \<longrightarrow> \<not> includes_str e TARGET_EXISTS"
    and m: "\<forall>h e. backend env h RefreshTrayMenu = Some e \<longrightarrow> \<not> includes_str e TARGET_EXISTS"
  shows "filter isPrompt (since s (snd (handleToggleTool env tools skill toolId s))) = []
     \<and> syncCalls False (since s (snd (handleToggleTool env tools skill toolId s))) = []
     \<and> syncCalls True (since s (snd (handleToggleTool env tools skill toolId s))) = []"
proof -
  let ?U = "UnsyncSkillFromTool (skill_id skill) toolId"
  let ?h1 = "trace s @ [SetActionLoading True]"
  let ?h2 = "?h1 @ [Awaited ?U None]"
  let ?h3 = "?h2 @ [Awaited Refresh None]"
  note defs = toggle_synced_unfold [OF synced] toggleCatch_def showGitError_def prog_defs
    Let_def since_def
  show ?thesis
  proof (cases "backend env ?h1 ?U")
    case (Some e)
    with u have "\<not> includes_str e TARGET_EXISTS" by blast
    with Some show ?thesis by (simp add: defs)
  next
    case u_ok: None
    show ?thesis
    proof (cases "backend env ?h2 Refresh")
      case (Some e)
      with r have "\<not> includes_str e TARGET_EXISTS" by blast
      with Some u_ok show ?thesis by (simp add: defs)
    next
      case r_ok: None
      show ?thesis
      proof (cases "backend env ?h3 RefreshTrayMenu")
        case (Some e)
        with m have "\<not> includes_str e TARGET_EXISTS" by blast
        with Some u_ok r_ok show ?thesis by (simp add: defs)
      next
        case None
        with u_ok r_ok show ?thesis by (simp add: defs)
      qed
    qed
  qed
qed

text \<open>
  Claim C7, as stated, fails: the prompt does depend on the error string of the remove
  call. The \<open>catch\<close> block of the toggle action serves the remove path and the sync
  path alike, and tests only the string. For a skill that is synced to tool T, a
  remove call rejected with \<open>TARGET_EXISTS|/x\<close> brings up the overwrite prompt, and on
  "yes" the skill is synced to T with the overwrite flag.
\<close>

theorem C7_unsync_prompt_counterexample:
  "find (\<lambda>t. target_tool t = (js ''T'')) (targets syncedSkill) = Some \<lparr>target_tool = (js ''T'')\<rparr>
   \<and> handleToggleTool
     (mkEnv (\<lambda>h c. case c of UnsyncSkillFromTool i t \<Rightarrow> Some (js ''TARGET_EXISTS|/x'') | _ \<Rightarrow> None)
        (\<lambda>h n l p. True))
     [] syncedSkill (js ''T'') s0 =
   (Inr (), s0\<lparr>trace :=
      [SetActionLoading True,
       Awaited (UnsyncSkillFromTool (js ''s1'') (js ''T'')) (Some (js ''TARGET_EXISTS|/x'')),
       ConfirmTargetOverwrite (js ''Skill'') (js ''T'') (js ''/x'') True,
       Awaited (SyncSkillToTool (js ''/central/s1'') (js ''s1'') (js ''T'') (js ''Skill'') True) None,
       Awaited Refresh None,
       Awaited RefreshTrayMenu None,
       SetActionLoading False]\<rparr>)"
  by (simp add: fixture_defs handleToggleTool_def toggleCatch_def prog_defs Let_def
      labelOr_def TARGET_EXISTS_def targetPathOf_def lineTerminator_def)

text \<open>
  Claim C7, amended. For a skill whose targets hold an entry for the tool, the toggle
  action completes without throwing, and its first call, made right after the busy
  flag is raised, is the remove call for that skill and tool. When none of the calls
  it awaits (remove, list refresh, tray refresh) is rejected with a string that
  contains \<open>TARGET_EXISTS|\<close>, no conflict prompt is shown and no sync call is made.
\<close>

theorem C7_toggle_synced_unsyncs:
  assumes "find (\<lambda>t. target_tool t = toolId) (targets skill) \<noteq> None"
  shows "fst (handleToggleTool env tools skill toolId s) = Inr ()
    \<and> (\<exists>rest. since s (snd (handleToggleTool env tools skill toolId s)) =
         SetActionLoading True
         # Awaited (UnsyncSkillFromTool (skill_id skill) toolId)
             (backend env (trace s @ [SetActionLoading True])
                (UnsyncSkillFromTool (skill_id skill) toolId))
         # rest)
    \<and> ((\<forall>h e. backend env h (UnsyncSkillFromTool (skill_id skill) toolId) = Some e
              \<longrightarrow> \<not> includes_str e TARGET_EXISTS)
        \<and> (\<forall>h e. backend env h Refresh = Some e \<longrightarrow> \<not> includes_str e TARGET_EXISTS)
        \<and> (\<forall>h e. backend env h RefreshTrayMenu = Some e \<longrightarrow> \<not> includes_str e TARGET_EXISTS)
        \<longrightarrow> filter isPrompt (since s (snd (handleToggleTool env tools skill toolId s))) = []
          \<and> syncCalls False (since s (snd (handleToggleTool env tools skill toolId s))) = []
          \<and> syncCalls True (since s (snd (handleToggleTool env tools skill toolId s))) = [])"
proof (intro conjI impI)
  show "fst (handleToggleTool env tools skill toolId s) = Inr ()"
    using toggle_bracket [of s env tools skill toolId] by (simp add: busy_bracket_def)
  show "\<exists>rest. since s (snd (handleToggleTool env tools skill toolId s)) =
         SetActionLoading True
         # Awaited (UnsyncSkillFromTool (skill_id skill) toolId)
             (backend env (trace s @ [SetActionLoading True])
                (UnsyncSkillFromTool (skill_id skill) toolId))
         # rest"
    by (rule toggle_synced_first [OF assms])
next
  assume h: "(\<forall>h e. backend env h (UnsyncSkillFromTool (skill_id skill) toolId) = Some e
              \<longrightarrow> \<not> includes_str e TARGET_EXISTS)
        \<and> (\<forall>h e. backend env h Refresh = Some e \<longrightarrow> \<not> includes_str e TARGET_EXISTS)
        \<and> (\<forall>h e. backend env h RefreshTrayMenu = Some e \<longrightarrow> \<not> includes_str e TARGET_EXISTS)"
  from h have u: "\<forall>h e. backend env h (UnsyncSkillFromTool (skill_id skill) toolId) = Some e
              \<longrightarrow> \<not> includes_str e TARGET_EXISTS"
    and r: "\<forall>h e. backend env h Refresh = Some e \<longrightarrow> \<not> includes_str e TARGET_EXISTS"
    and m: "\<forall>h e. backend env h RefreshTrayMenu = Some e \<longrightarrow> \<not> includes_str e TARGET_EXISTS"
    by blast+
  note q = toggle_synced_quiet [OF assms u r m, where tools = tools and s = s]
  from q show "filter isPrompt (since s (snd (handleToggleTool env tools skill toolId s))) = []"
    by blast
  from q show "syncCalls False (since s (snd (handleToggleTool env tools skill toolId s))) = []"
    by blast
  from q show "syncCalls True (since s (snd (handleToggleTool env tools skill toolId s))) = []"
    by blast
qed

theorem C7_toggle_synced_unsyncs_witness:
  "find (\<lambda>t. target_tool t = (js ''T'')) (targets syncedSkill) \<noteq> None
   \<and> filter isPrompt (since s0 (snd (handleToggleTool
        (mkEnv (\<lambda>h c. case c of UnsyncSkillFromTool i t \<Rightarrow> Some (js ''permission denied'') | _ \<Rightarrow> None)
           (\<lambda>h n l p. True))
        [] syncedSkill (js ''T'') s0))) = []
   \<and> take 2 (since s0 (snd (handleToggleTool
        (mkEnv (\<lambda>h c. case c of UnsyncSkillFromTool i t \<Rightarrow> Some (js ''permission denied'') | _ \<Rightarrow> None)
           (\<lambda>h n l p. True))
        [] syncedSkill (js ''T'') s0)))
     = [SetActionLoading True,
        Awaited (UnsyncSkillFromTool (js ''s1'') (js ''T'')) (Some (js ''permission denied''))]"
proof -
  let ?env = "mkEnv (\<lambda>h c. case c of UnsyncSkillFromTool i t \<Rightarrow> Some (js ''permission denied'') | _ \<Rightarrow> None)
           (\<lambda>h n l p. True)"
  have synced: "find (\<lambda>t. target_tool t = (js ''T'')) (targets syncedSkill) \<noteq> None"
    by (simp add: syncedSkill_def)
  have n: "\<not> includes_str (js ''permission denied'') TARGET_EXISTS"
    by (simp add: TARGET_EXISTS_def)
  have u: "\<forall>h e. backend ?env h (UnsyncSkillFromTool (skill_id syncedSkill) (js ''T'')) = Some e
              \<longrightarrow> \<not> includes_str e TARGET_EXISTS"
    using n by (simp add: mkEnv_def)
  have r: "\<forall>h e. backend ?env h Refresh = Some e \<longrightarrow> \<not> includes_str e TARGET_EXISTS"
    by (simp add: mkEnv_def)
  have m: "\<forall>h e. backend ?env h RefreshTrayMenu = Some e \<longrightarrow> \<not> includes_str e TARGET_EXISTS"
    by (simp add: mkEnv_def)
  note c7 = C7_toggle_synced_unsyncs [OF synced, where env = ?env and tools = "[]" and s = s0]
  from c7 u r m
  have p: "filter isPrompt (since s0 (snd (handleToggleTool ?env [] syncedSkill (js ''T'') s0))) = []"
    by blast
  from c7 obtain rest where
    "since s0 (snd (handleToggleTool ?env [] syncedSkill (js ''T'') s0)) =
       SetActionLoading True
       # Awaited (UnsyncSkillFromTool (skill_id syncedSkill) (js ''T''))
           (backend ?env (trace s0 @ [SetActionLoading True])
              (UnsyncSkillFromTool (skill_id syncedSkill) (js ''T'')))
       # rest"
    by blast
  then have t: "take 2 (since s0 (snd (handleToggleTool ?env [] syncedSkill (js ''T'') s0)))
     = [SetActionLoading True,
        Awaited (UnsyncSkillFromTool (js ''s1'') (js ''T'')) (Some (js ''permission denied''))]"
    by (simp add: mkEnv_def syncedSkill_def)
  from synced p t show ?thesis by blast
qed

section \<open>How the sync handlers classify an error and what path they show\<close>

text \<open>
  The \<open>catch\<close> block of the toggle action shows the prompt, once, exactly for the error
  strings that contain the tag, with the path that the regular expression extracts.
\<close>

lemma toggleCatch_prompts:
  "filter isPrompt (since s (snd (toggleCatch env tools skill toolId e s))) =
     (if includes_str e TARGET_EXISTS
      then [ConfirmTargetOverwrite (skill_name skill) (labelOr tools toolId) (targetPathOf e)
              (user env (trace s) (skill_name skill) (labelOr tools toolId) (targetPathOf e))]
      else [])"
  by (auto simp: toggleCatch_def showGitError_def prog_defs Let_def since_def split: option.splits)

lemma toggle_first_rejected:
  assumes "backend env (trace s @ [SetActionLoading True])
             (if find (\<lambda>t. target_tool t = toolId) (targets skill) \<noteq> None
              then UnsyncSkillFromTool (skill_id skill) toolId
              else SyncSkillToTool (central_path skill) (skill_id skill) toolId (skill_name skill) False)
           = Some e"
  shows "filter isPrompt (since s (snd (handleToggleTool env tools skill toolId s))) =
     (if includes_str e TARGET_EXISTS
      then [ConfirmTargetOverwrite (skill_name skill) (labelOr tools toolId) (targetPathOf e)
              (user env
                 (trace s @
                    [SetActionLoading True,
                     Awaited
                       (if find (\<lambda>t. target_tool t = toolId) (targets skill) \<noteq> None
                        then UnsyncSkillFromTool (skill_id skill) toolId
                        else SyncSkillToTool (central_path skill) (skill_id skill) toolId
                               (skill_name skill) False)
                       (Some e)])
                 (skill_name skill) (labelOr tools toolId) (targetPathOf e))]
      else [])"
proof -
  let ?c = "if find (\<lambda>t. target_tool t = toolId) (targets skill) \<noteq> None
            then UnsyncSkillFromTool (skill_id skill) toolId
            else SyncSkillToTool (central_path skill) (skill_id skill) toolId (skill_name skill) False"
  let ?s1 = "s\<lparr>actionLoading := True, trace := trace s @ [SetActionLoading True]\<rparr>"
  let ?s2 = "?s1\<lparr>trace := trace ?s1 @ [Awaited ?c (Some e)]\<rparr>"
  let ?B = "bind (if find (\<lambda>t. target_tool t = toolId) (targets skill) \<noteq> None
                  then await env (UnsyncSkillFromTool (skill_id skill) toolId)
                  else await env (SyncSkillToTool (central_path skill) (skill_id skill)
                         toolId (skill_name skill) False))
              (\<lambda>u. bind (await env Refresh) (\<lambda>u. await env RefreshTrayMenu))"
  have body: "?B ?s1 = (Inl e, ?s2)"
    using assms by (simp add: prog_defs split: if_splits)
  obtain evs where t: "trace (snd (toggleCatch env tools skill toolId e ?s2)) = trace ?s2 @ evs"
    using steady_trace [OF steady_toggleCatch] by blast
  from toggleCatch_prompts [of ?s2 env tools skill toolId e] t
  have p: "filter isPrompt evs =
     (if includes_str e TARGET_EXISTS
      then [ConfirmTargetOverwrite (skill_name skill) (labelOr tools toolId) (targetPathOf e)
              (user env (trace ?s2) (skill_name skill) (labelOr tools toolId) (targetPathOf e))]
      else [])"
    by (simp add: since_def)
  have "trace (snd (handleToggleTool env tools skill toolId s))
      = trace (snd (toggleCatch env tools skill toolId e ?s2)) @ [SetActionLoading False]"
    unfolding handleToggleTool_def Let_def bracket_trace using body by (simp add: try_catch_def)
  with t have "since s (snd (handleToggleTool env tools skill toolId s))
      = [SetActionLoading True, Awaited ?c (Some e)] @ evs @ [SetActionLoading False]"
    by (simp add: since_def)
  with p show ?thesis by simp
qed

text \<open>
  The loop body of the batch, when its call is rejected: the event after the rejected
  call tells how the error was classified.
\<close>

lemma syncStep_rejected:
  assumes "backend env (trace s)
             (SyncSkillToTool (centralPath opts) (skillId opts) t (skillName opts) False) = Some e"
  shows "\<exists>rest. since s (snd (syncStep env opts t s)) =
     Awaited (SyncSkillToTool (centralPath opts) (skillId opts) t (skillName opts) False) (Some e)
     # (if includes_str e TARGET_EXISTS
        then (if onTargetExists opts = Confirm
              then ConfirmTargetOverwrite (skillName opts) (labelOr (allTools opts) t) (targetPathOf e)
                     (user env
                        (trace s @
                           [Awaited (SyncSkillToTool (centralPath opts) (skillId opts) t
                              (skillName opts) False) (Some e)])
                        (skillName opts) (labelOr (allTools opts) t) (targetPathOf e))
              else ConsoleLog (js ''Skipping '' @ t @ js '': target exists (already synced)''))
        else ConsoleError (js ''Failed to sync to '' @ t @ js '':'') e)
     # rest"
  using assms by (auto simp: syncStep_def prog_defs Let_def since_def split: option.splits)

text \<open>
  Claim C10, as stated, fails: the path that the handlers extract is not always the
  entire remainder after the tag. The group \<open>(.+)\<close> stops at a line terminator. For
  the error string \<open>TARGET_EXISTS|/a\<close>, line feed, \<open>b\<close> the toggle action's prompt shows
  the path \<open>/a\<close>, and so does the prompt of a batch for the same string with the line
  separator U+2028 in place of the line feed.
\<close>

theorem C10_line_terminator_counterexample:
  "includes_str (TARGET_EXISTS @ js ''/a'' @ [0x000A] @ js ''b'') TARGET_EXISTS
   \<and> toggleCatch (mkEnv (\<lambda>h c. None) (\<lambda>h n l p. False)) [] syncedSkill (js ''T'')
        (TARGET_EXISTS @ js ''/a'' @ [0x000A] @ js ''b'') s0
      = (Inr (), s0\<lparr>trace := [ConfirmTargetOverwrite (js ''Skill'') (js ''T'') (js ''/a'') False]\<rparr>)
   \<and> js ''/a'' \<noteq> js ''/a'' @ [0x000A] @ js ''b''
   \<and> syncSkillToTools
        (mkEnv (\<lambda>h c. Some (TARGET_EXISTS @ js ''/a'' @ [0x2028] @ js ''b'')) (\<lambda>h n l p. False))
        ((batchOpts Confirm)\<lparr>selectedTools := [js ''A'']\<rparr>) s0
      = (Inr (), s0\<lparr>trace :=
           [Awaited (SyncSkillToTool (js ''/central/s1'') (js ''s1'') (js ''A'') (js ''Skill'') False)
              (Some (TARGET_EXISTS @ js ''/a'' @ [0x2028] @ js ''b'')),
            ConfirmTargetOverwrite (js ''Skill'') (js ''A'') (js ''/a'') False]\<rparr>)
   \<and> js ''/a'' \<noteq> js ''/a'' @ [0x2028] @ js ''b''"
  by (simp add: fixture_defs toggleCatch_def syncSkillToTools_def syncStep_def prog_defs Let_def
      labelOr_def TARGET_EXISTS_def targetPathOf_def lineTerminator_def)

text \<open>
  Claim C10, amended. For every backend error string \<open>e\<close>, the toggle and the batch sync
  handler classify \<open>e\<close> as a target-exists conflict exactly when the tag
  \<open>TARGET_EXISTS|\<close> occurs somewhere in \<open>e\<close>: the \<open>catch\<close> block of the toggle action
  shows the overwrite prompt, once, in that case and no prompt otherwise, also when
  \<open>e\<close> is what the action's first call was rejected with; the loop body of the batch
  follows a call rejected with \<open>e\<close> by the prompt (policy \<open>confirm\<close>) or the skip line
  (policy \<open>skip\<close>) in that case and by the failure line otherwise. The path shown is
  this: where \<open>r\<close> is what follows the first occurrence of the tag, and \<open>r\<close> starts with
  a character that is not a line terminator (line feed, carriage return, U+2028,
  U+2029), the path is \<open>r\<close> up to its first line terminator (all of \<open>r\<close> when it has
  none), further \<open>|\<close> characters included; when nothing follows the tag, the path is
  the empty string.
\<close>

theorem C10_target_exists_payload:
  "(includes_str e TARGET_EXISTS \<longleftrightarrow> (\<exists>p r. e = p @ TARGET_EXISTS @ r))
   \<and> filter isPrompt (since s (snd (toggleCatch env tools skill toolId e s))) =
       (if includes_str e TARGET_EXISTS
        then [ConfirmTargetOverwrite (skill_name skill) (labelOr tools toolId) (targetPathOf e)
                (user env (trace s) (skill_name skill) (labelOr tools toolId) (targetPathOf e))]
        else [])
   \<and> (backend env (trace s @ [SetActionLoading True])
         (if find (\<lambda>t. target_tool t = toolId) (targets skill) \<noteq> None
          then UnsyncSkillFromTool (skill_id skill) toolId
          else SyncSkillToTool (central_path skill) (skill_id skill) toolId (skill_name skill) False)
         = Some e
       \<longrightarrow> filter isPrompt (since s (snd (handleToggleTool env tools skill toolId s))) =
           (if includes_str e TARGET_EXISTS
            then [ConfirmTargetOverwrite (skill_name skill) (labelOr tools toolId) (targetPathOf e)
                    (user env
                       (trace s @
                          [SetActionLoading True,
                           Awaited
                             (if find (\<lambda>t. target_tool t = toolId) (targets skill) \<noteq> None
                              then UnsyncSkillFromTool (skill_id skill) toolId
                              else SyncSkillToTool (central_path skill) (skill_id skill) toolId
                                     (skill_name skill) False)
                             (Some e)])
                       (skill_name skill) (labelOr tools toolId) (targetPathOf e))]
            else []))
   \<and> (backend env (trace s)
         (SyncSkillToTool (centralPath opts) (skillId opts) t (skillName opts) False) = Some e
       \<longrightarrow> (\<exists>rest. since s (snd (syncStep env opts t s)) =
             Awaited (SyncSkillToTool (centralPath opts) (skillId opts) t (skillName opts) False)
               (Some e)
             # (if includes_str e TARGET_EXISTS
                then (if onTargetExists opts = Confirm
                      then ConfirmTargetOverwrite (skillName opts) (labelOr (allTools opts) t)
                             (targetPathOf e)
                             (user env
                                (trace s @
                                   [Awaited (SyncSkillToTool (centralPath opts) (skillId opts) t
                                      (skillName opts) False) (Some e)])
                                (skillName opts) (labelOr (allTools opts) t) (targetPathOf e))
                      else ConsoleLog (js ''Skipping '' @ t @ js '': target exists (already synced)''))
                else ConsoleError (js ''Failed to sync to '' @ t @ js '':'') e)
             # rest))
   \<and> (\<forall>p r. e = p @ TARGET_EXISTS @ r
          \<and> (\<forall>i<length p. \<not> startsWith (drop i e) TARGET_EXISTS)
        \<longrightarrow> (takeWhile (\<lambda>x. \<not> lineTerminator x) r \<noteq> []
               \<longrightarrow> targetPathOf e = takeWhile (\<lambda>x. \<not> lineTerminator x) r)
          \<and> (r = [] \<longrightarrow> targetPathOf e = []))"
proof (intro conjI allI impI)
  show "includes_str e TARGET_EXISTS \<longleftrightarrow> (\<exists>p r. e = p @ TARGET_EXISTS @ r)"
    by (rule includes_str_iff)
  show "filter isPrompt (since s (snd (toggleCatch env tools skill toolId e s))) =
       (if includes_str e TARGET_EXISTS
        then [ConfirmTargetOverwrite (skill_name skill) (labelOr tools toolId) (targetPathOf e)
                (user env (trace s) (skill_name skill) (labelOr tools toolId) (targetPathOf e))]
        else [])"
    by (rule toggleCatch_prompts)
next
  assume "backend env (trace s @ [SetActionLoading True])
         (if find (\<lambda>t. target_tool t = toolId) (targets skill) \<noteq> None
          then UnsyncSkillFromTool (skill_id skill) toolId
          else SyncSkillToTool (central_path skill) (skill_id skill) toolId (skill_name skill) False)
         = Some e"
  then show "filter isPrompt (since s (snd (handleToggleTool env tools skill toolId s))) =
           (if includes_str e TARGET_EXISTS
            then [ConfirmTargetOverwrite (skill_name skill) (labelOr tools toolId) (targetPathOf e)
                    (user env
                       (trace s @
                          [SetActionLoading True,
                           Awaited
                             (if find (\<lambda>t. target_tool t = toolId) (targets skill) \<noteq> None
                              then UnsyncSkillFromTool (skill_id skill) toolId
                              else SyncSkillToTool (central_path skill) (skill_id skill) toolId
                                     (skill_name skill) False)
                             (Some e)])
                       (skill_name skill) (labelOr tools toolId) (targetPathOf e))]
            else [])"
    by (rule toggle_first_rejected)
next
  assume "backend env (trace s)
         (SyncSkillToTool (centralPath opts) (skillId opts) t (skillName opts) False) = Some e"
  then show "\<exists>rest. since s (snd (syncStep env opts t s)) =
             Awaited (SyncSkillToTool (centralPath opts) (skillId opts) t (skillName opts) False)
               (Some e)
             # (if includes_str e TARGET_EXISTS
                then (if onTargetExists opts = Confirm
                      then ConfirmTargetOverwrite (skillName opts) (labelOr (allTools opts) t)
                             (targetPathOf e)
                             (user env
                                (trace s @
                                   [Awaited (SyncSkillToTool (centralPath opts) (skillId opts) t
                                      (skillName opts) False) (Some e)])
                                (skillName opts) (labelOr (allTools opts) t) (targetPathOf e))
                      else ConsoleLog (js ''Skipping '' @ t @ js '': target exists (already synced)''))
                else ConsoleError (js ''Failed to sync to '' @ t @ js '':'') e)
             # rest"
    by (rule syncStep_rejected)
next
  fix p r
  assume a: "e = p @ TARGET_EXISTS @ r \<and> (\<forall>i<length p. \<not> startsWith (drop i e) TARGET_EXISTS)"
    and b: "takeWhile (\<lambda>x. \<not> lineTerminator x) r \<noteq> []"
  from a have e: "e = p @ TARGET_EXISTS @ r"
    and f: "\<forall>i<length p. \<not> startsWith (drop i e) TARGET_EXISTS" by blast+
  from f have "\<forall>i<length p. \<not> startsWith (drop i (p @ TARGET_EXISTS @ r)) TARGET_EXISTS"
    unfolding e .
  from targetPath_first_occurrence(1) [OF this b]
  show "targetPathOf e = takeWhile (\<lambda>x. \<not> lineTerminator x) r" unfolding e .
next
  fix p r
  assume a: "e = p @ TARGET_EXISTS @ r \<and> (\<forall>i<length p. \<not> startsWith (drop i e) TARGET_EXISTS)"
    and b: "r = []"
  from a have e: "e = p @ TARGET_EXISTS @ r"
    and f: "\<forall>i<length p. \<not> startsWith (drop i e) TARGET_EXISTS" by blast+
  from f have "\<forall>i<length p. \<not> startsWith (drop i (p @ TARGET_EXISTS @ r)) TARGET_EXISTS"
    unfolding e .
  from targetPath_first_occurrence(2) [OF this b]
  show "targetPathOf e = []" unfolding e .
qed

theorem C10_target_exists_payload_witness:
  "includes_str (js ''E: TARGET_EXISTS|/a|b'') TARGET_EXISTS
   \<and> targetPathOf (js ''E: TARGET_EXISTS|/a|b'') = js ''/a|b''
   \<and> filter isPrompt (since s0 (snd (toggleCatch (mkEnv (\<lambda>h c. None) (\<lambda>h n l p. False)) []
        syncedSkill (js ''T'') (js ''E: TARGET_EXISTS|/a|b'') s0)))
      = [ConfirmTargetOverwrite (js ''Skill'') (js ''T'') (js ''/a|b'') False]
   \<and> filter isPrompt (since s0 (snd (handleToggleTool
        (mkEnv (\<lambda>h c. Some (js ''E: TARGET_EXISTS|/a|b'')) (\<lambda>h n l p. False)) []
        syncedSkill (js ''T'') s0)))
      = [ConfirmTargetOverwrite (js ''Skill'') (js ''T'') (js ''/a|b'') False]"
proof -
  let ?e = "js ''E: TARGET_EXISTS|/a|b''"
  let ?env = "mkEnv (\<lambda>h c. None) (\<lambda>h n l p. False)"
  let ?env2 = "mkEnv (\<lambda>h c. Some ?e) (\<lambda>h n l p. False)"
  have f: "\<forall>i<length (js ''E: ''). \<not> startsWith (drop i ?e) TARGET_EXISTS"
    by (simp add: TARGET_EXISTS_def less_Suc_eq)
  have e1: "?e = js ''E: '' @ TARGET_EXISTS @ js ''/a|b''"
    by (simp add: TARGET_EXISTS_def)
  have t: "takeWhile (\<lambda>x. \<not> lineTerminator x) (js ''/a|b'') = js ''/a|b''"
    by (simp add: lineTerminator_def)
  note c = C10_target_exists_payload [where e = ?e and env = ?env and tools = "[]"
      and skill = syncedSkill and toolId = "js ''T''" and s = s0]
  note c2 = C10_target_exists_payload [where e = ?e and env = ?env2 and tools = "[]"
      and skill = syncedSkill and toolId = "js ''T''" and s = s0]
  from c e1 have inc: "includes_str ?e TARGET_EXISTS"
    by blast
  from c have "\<forall>p r. ?e = p @ TARGET_EXISTS @ r
          \<and> (\<forall>i<length p. \<not> startsWith (drop i ?e) TARGET_EXISTS)
        \<longrightarrow> (takeWhile (\<lambda>x. \<not> lineTerminator x) r \<noteq> []
               \<longrightarrow> targetPathOf ?e = takeWhile (\<lambda>x. \<not> lineTerminator x) r)
          \<and> (r = [] \<longrightarrow> targetPathOf ?e = [])"
    by blast
  with e1 f t have tp: "targetPathOf ?e = js ''/a|b''"
    by (metis list.distinct(1) e1 map_is_Nil_conv js_def)
  from c inc tp
  have p1: "filter isPrompt (since s0 (snd (toggleCatch ?env [] syncedSkill (js ''T'') ?e s0)))
      = [ConfirmTargetOverwrite (skill_name syncedSkill) (labelOr [] (js ''T'')) (js ''/a|b'')
           (user ?env (trace s0) (skill_name syncedSkill) (labelOr [] (js ''T'')) (js ''/a|b''))]"
    by presburger
  have b: "backend ?env2 (trace s0 @ [SetActionLoading True])
         (if find (\<lambda>t. target_tool t = js ''T'') (targets syncedSkill) \<noteq> None
          then UnsyncSkillFromTool (skill_id syncedSkill) (js ''T'')
          else SyncSkillToTool (central_path syncedSkill) (skill_id syncedSkill) (js ''T'')
                 (skill_name syncedSkill) False)
         = Some ?e"
    by (simp add: mkEnv_def)
  from c2 b inc tp
  have p2: "filter isPrompt (since s0 (snd (handleToggleTool ?env2 [] syncedSkill (js ''T'') s0)))
      = [ConfirmTargetOverwrite (skill_name syncedSkill) (labelOr [] (js ''T'')) (js ''/a|b'')
           (user ?env2
              (trace s0 @
                 [SetActionLoading True,
                  Awaited
                    (if find (\<lambda>t. target_tool t = js ''T'') (targets syncedSkill) \<noteq> None
                     then UnsyncSkillFromTool (skill_id syncedSkill) (js ''T'')
                     else SyncSkillToTool (central_path syncedSkill) (skill_id syncedSkill) (js ''T'')
                            (skill_name syncedSkill) False)
                    (Some ?e)])
              (skill_name syncedSkill) (labelOr [] (js ''T'')) (js ''/a|b''))]"
    by presburger
  from inc tp p1 p2 show ?thesis
    by (simp add: fixture_defs labelOr_def)
qed

end
